theory Spec2Isabelle
  imports Complex_Main
begin

section \<open>JavaScript values\<close>

text \<open>
  Response bodies, storage payloads and reducer payloads are untyped at run time
  (\<^verbatim>\<open>response.data\<close> is \<^verbatim>\<open>any\<close>), so they are modelled as JavaScript values.
  \<open>JUndefined\<close> is \<^verbatim>\<open>undefined\<close>; it never occurs inside a JSON body but is what a
  missing property reads as.
\<close>

datatype jsval =
    JUndefined
  | JNull
  | JBool bool
  | JNum real
  | JStr string
  | JArr "jsval list"
  | JObj "(string \<times> jsval) list"

text \<open>JavaScript truthiness: what \<^verbatim>\<open>if (v)\<close> and \<^verbatim>\<open>v || d\<close> test.\<close>

fun truthy :: "jsval \<Rightarrow> bool" where
  "truthy JUndefined = False"
| "truthy JNull = False"
| "truthy (JBool b) = b"
| "truthy (JNum n) = (n \<noteq> 0)"
| "truthy (JStr s) = (s \<noteq> [])"
| "truthy (JArr xs) = True"
| "truthy (JObj kvs) = True"

text \<open>\<^verbatim>\<open>a || b\<close>\<close>

definition js_or :: "jsval \<Rightarrow> jsval \<Rightarrow> jsval" where
  "js_or a b = (if truthy a then a else b)"

section \<open>Errors\<close>

text \<open>
  Everything a promise of the client can reject with.
  \<open>JsError m\<close> is \<^verbatim>\<open>new Error(m)\<close>;
  \<open>AxiosError r\<close> is the HTTP library's error, \<open>r\<close> being \<^verbatim>\<open>error.response\<close>
  (status and body) when the server answered and \<open>None\<close> when it did not;
  \<open>ZodError\<close> is what \<^verbatim>\<open>schema.parse\<close> throws; \<open>TypeError\<close> is a property read on
  \<^verbatim>\<open>null\<close> or \<^verbatim>\<open>undefined\<close>; \<open>SyntaxError\<close> is what \<^verbatim>\<open>JSON.parse\<close> throws;
  \<open>StorageError\<close> is a rejected storage call.
\<close>

datatype client_error =
    JsError jsval
  | AxiosError "(nat \<times> jsval) option"
  | ZodError
  | TypeError
  | SyntaxError
  | StorageError

text \<open>\<^verbatim>\<open>v.k\<close>: throws on \<^verbatim>\<open>null\<close> and \<^verbatim>\<open>undefined\<close>, reads an own property of an
  object, and is \<^verbatim>\<open>undefined\<close> for a property the value does not have.\<close>

fun get_prop :: "jsval \<Rightarrow> string \<Rightarrow> client_error + jsval" where
  "get_prop JUndefined k = Inl TypeError"
| "get_prop JNull k = Inl TypeError"
| "get_prop (JObj kvs) k = Inr (case map_of kvs k of None \<Rightarrow> JUndefined | Some v \<Rightarrow> v)"
| "get_prop v k = Inr JUndefined"

text \<open>\<^verbatim>\<open>v?.k\<close>\<close>

fun get_prop_opt :: "jsval \<Rightarrow> string \<Rightarrow> jsval" where
  "get_prop_opt (JObj kvs) k = (case map_of kvs k of None \<Rightarrow> JUndefined | Some v \<Rightarrow> v)"
| "get_prop_opt v k = JUndefined"

section \<open>constants/api.ts\<close>

definition API_VERSION :: string where
  "API_VERSION = ''v1''"

definition TOKEN_STORAGE_KEY :: string where
  "TOKEN_STORAGE_KEY = ''movie_database_auth_token''"

definition LOGIN :: string where
  "LOGIN = ''/api/'' @ API_VERSION @ ''/auth/login''"

definition REGISTER :: string where
  "REGISTER = ''/api/'' @ API_VERSION @ ''/auth/register''"

definition MOVIES :: string where
  "MOVIES = ''/api/'' @ API_VERSION @ ''/movies''"

text \<open>contexts/auth-context.tsx\<close>

definition USER_DATA_KEY :: string where
  "USER_DATA_KEY = ''user_data''"

section \<open>The world the client runs in\<close>

datatype http_method = GET | POST | PUT | DELETE

record request_config =
  http_method :: http_method
  url :: string
  params :: "(string \<times> string) list"
  body :: jsval
  headers :: "(string \<times> string) list"

text \<open>Every call that leaves the program is recorded, in order.\<close>

datatype event =
    NetInfoFetch
  | StorageGet string
  | StorageSet string string
  | StorageRemove string
  | HttpDispatch request_config
  | RouterReplace string

text \<open>
  \<open>storage\<close> is AsyncStorage, \<open>isConnected\<close> is what \<^verbatim>\<open>NetInfo.fetch()\<close> reports
  (\<^verbatim>\<open>boolean | null\<close>), \<open>platformOS\<close> is \<^verbatim>\<open>Platform.OS\<close>.
\<close>

record world =
  storage :: "string \<rightharpoonup> string"
  isConnected :: "bool option"
  platformOS :: string
  trace :: "event list"

definition emit :: "event \<Rightarrow> world \<Rightarrow> world" where
  "emit e w = w\<lparr>trace := trace w @ [e]\<rparr>"

text \<open>\<^verbatim>\<open>AsyncStorage.getItem\<close>, \<^verbatim>\<open>removeItem\<close>, \<^verbatim>\<open>setItem\<close>. The store holds strings
  only: \<^verbatim>\<open>setItem\<close> with any other value is rejected by the storage module.\<close>

definition getItem :: "world \<Rightarrow> string \<Rightarrow> world \<times> string option" where
  "getItem w k = (emit (StorageGet k) w, storage w k)"

definition removeItem :: "world \<Rightarrow> string \<Rightarrow> world" where
  "removeItem w k = emit (StorageRemove k) (w\<lparr>storage := (storage w)(k := None)\<rparr>)"

fun setItem :: "world \<Rightarrow> string \<Rightarrow> jsval \<Rightarrow> client_error + world" where
  "setItem w k (JStr v) = Inr (emit (StorageSet k v) (w\<lparr>storage := (storage w)(k \<mapsto> v)\<rparr>))"
| "setItem w k v = Inl StorageError"

section \<open>services/api-client.ts\<close>

text \<open>The headers given to \<^verbatim>\<open>axios.create\<close>.\<close>

definition default_headers :: "world \<Rightarrow> (string \<times> string) list" where
  "default_headers w =
     [(''Content-Type'', ''application/json''),
      (''Accept'', ''application/json''),
      (''Platform'', platformOS w)]"

text \<open>The configuration a call \<^verbatim>\<open>apiClient.get(url, {params})\<close>,
  \<^verbatim>\<open>apiClient.post(url, data, {params})\<close>, ... hands to the interceptors.\<close>

definition mk_config ::
  "world \<Rightarrow> http_method \<Rightarrow> string \<Rightarrow> (string \<times> string) list \<Rightarrow> jsval \<Rightarrow> request_config" where
  "mk_config w m u ps b =
     \<lparr>http_method = m, url = u, params = ps, body = b, headers = default_headers w\<rparr>"

text \<open>\<^verbatim>\<open>config.headers.K = v\<close>\<close>

definition set_header :: "string \<Rightarrow> string \<Rightarrow> (string \<times> string) list \<Rightarrow> (string \<times> string) list" where
  "set_header k v hs = (k, v) # filter (\<lambda>kv. fst kv \<noteq> k) hs"

definition get_header :: "request_config \<Rightarrow> string \<Rightarrow> string option" where
  "get_header cfg k = map_of (headers cfg) k"

text \<open>The helper \<^verbatim>\<open>logout\<close>: only clears the token.\<close>

definition logout :: "world \<Rightarrow> world" where
  "logout w = removeItem w TOKEN_STORAGE_KEY"

text \<open>The request interceptor. \<^verbatim>\<open>!netInfo.isConnected\<close> holds for \<^verbatim>\<open>false\<close> and for
  \<^verbatim>\<open>null\<close>; \<^verbatim>\<open>if (token)\<close> fails for a missing entry and for the empty string.\<close>

definition request_interceptor :: "world \<Rightarrow> request_config \<Rightarrow> world \<times> (client_error + request_config)" where
  "request_interceptor w config =
     (let w1 = emit NetInfoFetch w in
      if isConnected w1 \<noteq> Some True
      then (w1, Inl (JsError (JStr ''No internet connection'')))
      else
        (case getItem w1 TOKEN_STORAGE_KEY of
           (w2, token) \<Rightarrow>
             (case token of
                None \<Rightarrow> (w2, Inr config)
              | Some t \<Rightarrow>
                  if t \<noteq> []
                  then (w2, Inr (config\<lparr>headers := set_header ''Authorization'' (''Bearer '' @ t) (headers config)\<rparr>))
                  else (w2, Inr config))))"

text \<open>\<^verbatim>\<open>error.response?.status\<close>\<close>

fun response_status :: "client_error \<Rightarrow> nat option" where
  "response_status (AxiosError (Some (st, d))) = Some st"
| "response_status e = None"

text \<open>The error handler of the response interceptor.\<close>

definition response_rejected :: "world \<Rightarrow> client_error \<Rightarrow> world \<times> client_error" where
  "response_rejected w err =
     (if response_status err = Some 401
      then (logout w, JsError (JStr ''Session expired. Please login again.''))
      else (w, err))"

text \<open>
  What the server does with a dispatched request: it answers with a status and a body,
  or no answer arrives (timeout, connection lost).
\<close>

datatype http_outcome = HttpResponse nat jsval | NoResponse

text \<open>
  One call through the shared client, as the HTTP library chains it: the request
  interceptor, the dispatch, the response interceptor. A rejection of the request
  interceptor skips the dispatch and reaches the response interceptor's error handler,
  as does a status outside 200..299 and a missing answer. The success handler of the
  response interceptor is the identity.
\<close>

definition apiClient_request ::
  "(request_config \<Rightarrow> http_outcome) \<Rightarrow> world \<Rightarrow> http_method \<Rightarrow> string \<Rightarrow> (string \<times> string) list \<Rightarrow> jsval
     \<Rightarrow> world \<times> (client_error + jsval)" where
  "apiClient_request server w m u ps b =
     (case request_interceptor w (mk_config w m u ps b) of
        (w1, Inl e) \<Rightarrow> (case response_rejected w1 e of (w2, e') \<Rightarrow> (w2, Inl e'))
      | (w1, Inr config) \<Rightarrow>
          (let w2 = emit (HttpDispatch config) w1 in
           case server config of
             HttpResponse st d \<Rightarrow>
               if 200 \<le> st \<and> st < 300 then (w2, Inr d)
               else (case response_rejected w2 (AxiosError (Some (st, d))) of (w3, e') \<Rightarrow> (w3, Inl e'))
           | NoResponse \<Rightarrow>
               (case response_rejected w2 (AxiosError None) of (w3, e') \<Rightarrow> (w3, Inl e'))))"

section \<open>contexts/auth-context.tsx\<close>

text \<open>
  \<open>user\<close> holds whatever value a success action carried (\<open>JNull\<close> is \<^verbatim>\<open>null\<close>): the
  reducer stores \<^verbatim>\<open>action.payload\<close> as it is, and the declared type \<^verbatim>\<open>User\<close> is not
  checked at run time.
\<close>

record auth_state =
  user :: jsval
  isAuthenticated :: bool
  isLoading :: bool
  error :: jsval

datatype auth_action =
    LOGIN_REQUEST
  | LOGIN_SUCCESS jsval
  | LOGIN_FAILURE jsval
  | REGISTER_REQUEST
  | REGISTER_SUCCESS jsval
  | REGISTER_FAILURE jsval
  | LOGOUT
  | CLEAR_ERROR

definition initialState :: auth_state where
  "initialState = \<lparr>user = JNull, isAuthenticated = False, isLoading = True, error = JNull\<rparr>"

fun authReducer :: "auth_state \<Rightarrow> auth_action \<Rightarrow> auth_state" where
  "authReducer state LOGIN_REQUEST = state\<lparr>isLoading := True, error := JNull\<rparr>"
| "authReducer state REGISTER_REQUEST = state\<lparr>isLoading := True, error := JNull\<rparr>"
| "authReducer state (LOGIN_SUCCESS payload) =
     state\<lparr>isAuthenticated := True, user := payload, isLoading := False, error := JNull\<rparr>"
| "authReducer state (REGISTER_SUCCESS payload) =
     state\<lparr>isAuthenticated := True, user := payload, isLoading := False, error := JNull\<rparr>"
| "authReducer state (LOGIN_FAILURE payload) =
     state\<lparr>isAuthenticated := False, user := JNull, isLoading := False, error := payload\<rparr>"
| "authReducer state (REGISTER_FAILURE payload) =
     state\<lparr>isAuthenticated := False, user := JNull, isLoading := False, error := payload\<rparr>"
| "authReducer state LOGOUT =
     state\<lparr>isAuthenticated := False, user := JNull, isLoading := False, error := JNull\<rparr>"
| "authReducer state CLEAR_ERROR = state\<lparr>error := JNull\<rparr>"

text \<open>The state after a sequence of dispatched actions.\<close>

definition dispatch_all :: "auth_state \<Rightarrow> auth_action list \<Rightarrow> auth_state" where
  "dispatch_all s acts = foldl authReducer s acts"

text \<open>The user a success action carries, if the action is one.\<close>

fun success_payload :: "auth_action \<Rightarrow> jsval option" where
  "success_payload (LOGIN_SUCCESS payload) = Some payload"
| "success_payload (REGISTER_SUCCESS payload) = Some payload"
| "success_payload a = None"

text \<open>\<^verbatim>\<open>logoutUser\<close>: the token, then the stored profile, then the reducer, then the
  redirect.\<close>

definition logoutUser :: "world \<Rightarrow> auth_state \<Rightarrow> world \<times> auth_state" where
  "logoutUser w state =
     (let w1 = logout w;
          w2 = removeItem w1 USER_DATA_KEY;
          state' = authReducer state LOGOUT;
          w3 = emit (RouterReplace ''/login'') w2
      in (w3, state'))"

text \<open>\<^verbatim>\<open>error.response?.data?.message\<close>\<close>

fun error_message :: "client_error \<Rightarrow> jsval" where
  "error_message (AxiosError (Some (st, d))) = get_prop_opt d ''message''"
| "error_message e = JUndefined"

text \<open>The object literal \<^verbatim>\<open>{ username: un, role: rl }\<close>\<close>

definition user_object :: "jsval \<Rightarrow> jsval \<Rightarrow> jsval" where
  "user_object un rl = JObj [(''username'', un), (''role'', rl)]"



text \<open>The \<^verbatim>\<open>catch\<close> block of \<^verbatim>\<open>login\<close> and \<^verbatim>\<open>register\<close>: dispatch the failure with
  the server's message or the fallback text, and throw it again.\<close>

definition auth_catch ::
  "(jsval \<Rightarrow> auth_action) \<Rightarrow> string \<Rightarrow> world \<Rightarrow> auth_state \<Rightarrow> client_error
     \<Rightarrow> world \<times> auth_state \<times> (client_error + bool)" where
  "auth_catch failure fallback w state e =
     (let errorMessage = js_or (error_message e) (JStr fallback)
      in (w, authReducer state (failure errorMessage), Inl (JsError errorMessage)))"

text \<open>\<^verbatim>\<open>login\<close>. \<open>stringify\<close> is \<^verbatim>\<open>JSON.stringify\<close>, a built-in of the language, taken
  as a parameter. The destructuring of \<^verbatim>\<open>response.data\<close> throws on \<^verbatim>\<open>null\<close>.\<close>

definition login ::
  "(request_config \<Rightarrow> http_outcome) \<Rightarrow> (jsval \<Rightarrow> string) \<Rightarrow> world \<Rightarrow> auth_state \<Rightarrow> string \<Rightarrow> string
     \<Rightarrow> world \<times> auth_state \<times> (client_error + bool)" where
  "login server stringify w state uname password =
     (let s1 = authReducer state LOGIN_REQUEST in
      case apiClient_request server w POST LOGIN []
             (JObj [(''username'', JStr uname), (''password'', JStr password)]) of
        (w1, Inl e) \<Rightarrow> auth_catch LOGIN_FAILURE ''Login failed'' w1 s1 e
      | (w1, Inr d) \<Rightarrow>
          (case get_prop d ''token'' of
             Inl e \<Rightarrow> auth_catch LOGIN_FAILURE ''Login failed'' w1 s1 e
           | Inr token \<Rightarrow>
               (let u = user_object (get_prop_opt d ''username'')
                          (js_or (get_prop_opt d ''role'') (JStr ''user''))
                in case setItem w1 TOKEN_STORAGE_KEY token of
                     Inl e \<Rightarrow> auth_catch LOGIN_FAILURE ''Login failed'' w1 s1 e
                   | Inr w2 \<Rightarrow>
                       (case setItem w2 USER_DATA_KEY (JStr (stringify u)) of
                          Inl e \<Rightarrow> auth_catch LOGIN_FAILURE ''Login failed'' w2 s1 e
                        | Inr w3 \<Rightarrow> (w3, authReducer s1 (LOGIN_SUCCESS u), Inr True)))))"

text \<open>\<^verbatim>\<open>register\<close>. The token and the profile are stored only \<^verbatim>\<open>if (response.data.token)\<close>;
  \<^verbatim>\<open>REGISTER_SUCCESS\<close> is dispatched in both cases.\<close>

definition register ::
  "(request_config \<Rightarrow> http_outcome) \<Rightarrow> (jsval \<Rightarrow> string) \<Rightarrow> world \<Rightarrow> auth_state
     \<Rightarrow> string \<Rightarrow> string \<Rightarrow> string
     \<Rightarrow> world \<times> auth_state \<times> (client_error + bool)" where
  "register server stringify w state uname email password =
     (let s1 = authReducer state REGISTER_REQUEST;
          registerData = JObj [(''username'', JStr uname), (''email'', JStr email),
                               (''password'', JStr password), (''confirmPassword'', JStr password)]
      in
      case apiClient_request server w POST REGISTER [] registerData of
        (w1, Inl e) \<Rightarrow> auth_catch REGISTER_FAILURE ''Registration failed'' w1 s1 e
      | (w1, Inr d) \<Rightarrow>
          (case get_prop d ''username'' of
             Inl e \<Rightarrow> auth_catch REGISTER_FAILURE ''Registration failed'' w1 s1 e
           | Inr un \<Rightarrow>
               (let userName = js_or un (JStr uname);
                    u = user_object userName (js_or (get_prop_opt d ''role'') (JStr ''user''));
                    token = get_prop_opt d ''token''
                in
                if truthy token
                then
                  (case setItem w1 TOKEN_STORAGE_KEY token of
                     Inl e \<Rightarrow> auth_catch REGISTER_FAILURE ''Registration failed'' w1 s1 e
                   | Inr w2 \<Rightarrow>
                       (case setItem w2 USER_DATA_KEY (JStr (stringify u)) of
                          Inl e \<Rightarrow> auth_catch REGISTER_FAILURE ''Registration failed'' w2 s1 e
                        | Inr w3 \<Rightarrow> (w3, authReducer s1 (REGISTER_SUCCESS u), Inr True)))
                else (w1, authReducer s1 (REGISTER_SUCCESS u), Inr True))))"

section \<open>services/movie-service.ts: the search URL\<close>

text \<open>\<^verbatim>\<open>String(n)\<close> for an integer \<open>n\<close> (decimal digits, exact below \<open>10^21\<close> in
  magnitude, which covers every page number, year and identifier).\<close>

definition digit :: "nat \<Rightarrow> char" where
  "digit d = char_of (48 + d)"

fun decimal :: "nat \<Rightarrow> string" where
  "decimal n = (if n < 10 then [digit n] else decimal (n div 10) @ [digit (n mod 10)])"

declare decimal.simps [simp del]

definition String_number :: "int \<Rightarrow> string" where
  "String_number i = (if i < 0 then CHR ''-'' # decimal (nat (- i)) else decimal (nat i))"

datatype sort_order = asc | desc

fun sort_order_text :: "sort_order \<Rightarrow> string" where
  "sort_order_text asc = ''asc''"
| "sort_order_text desc = ''desc''"

record MovieSearchParams =
  pageNumber :: "int option"
  pageSize :: "int option"
  searchTerm :: "string option"
  sortBy :: "string option"
  sortOrder :: "sort_order option"
  releaseYear :: "int option"
  genreIds :: "int list option"

text \<open>\<^verbatim>\<open>URLSearchParams\<close>: an ordered list of name/value pairs; \<^verbatim>\<open>append\<close> adds at the end;
  \<^verbatim>\<open>toString\<close> joins \<^verbatim>\<open>name=value\<close> with \<^verbatim>\<open>&\<close>, each side percent-encoded by the
  platform's encoder \<open>enc\<close>.\<close>

definition append_param :: "(string \<times> string) list \<Rightarrow> string \<Rightarrow> string \<Rightarrow> (string \<times> string) list" where
  "append_param q k v = q @ [(k, v)]"

fun join_amp :: "string list \<Rightarrow> string" where
  "join_amp [] = []"
| "join_amp [x] = x"
| "join_amp (x # y # ys) = x @ ''&'' @ join_amp (y # ys)"

definition toString :: "(string \<Rightarrow> string) \<Rightarrow> (string \<times> string) list \<Rightarrow> string" where
  "toString enc q = join_amp (map (\<lambda>kv. enc (fst kv) @ ''='' @ enc (snd kv)) q)"

text \<open>\<^verbatim>\<open>x || d\<close> on an optional number: \<^verbatim>\<open>undefined\<close> and \<open>0\<close> give the default.\<close>

definition number_or :: "int option \<Rightarrow> int \<Rightarrow> int" where
  "number_or x d = (case x of None \<Rightarrow> d | Some n \<Rightarrow> if n = 0 then d else n)"

text \<open>The query parameters \<^verbatim>\<open>searchMovies\<close> builds, in the order of its statements.\<close>

definition searchMovies_queryParams :: "MovieSearchParams \<Rightarrow> (string \<times> string) list" where
  "searchMovies_queryParams ps =
     (let q0 = [];
          q1 = (case searchTerm ps of
                  None \<Rightarrow> q0
                | Some t \<Rightarrow> if t \<noteq> [] then append_param q0 ''SearchTerm'' t else q0);
          q2 = append_param q1 ''PageNumber'' (String_number (number_or (pageNumber ps) 1));
          q3 = append_param q2 ''PageSize'' (String_number (number_or (pageSize ps) 10));
          q4 = (case sortBy ps of
                  None \<Rightarrow> q3
                | Some b \<Rightarrow> if b \<noteq> [] then append_param q3 ''SortBy'' b else q3);
          q5 = (case sortOrder ps of
                  None \<Rightarrow> q4
                | Some so \<Rightarrow> append_param q4 ''SortOrder'' (sort_order_text so));
          q6 = (case releaseYear ps of
                  None \<Rightarrow> q5
                | Some y \<Rightarrow> if y \<noteq> 0 then append_param q5 ''ReleaseYear'' (String_number y) else q5);
          q7 = append_param q6 ''version'' ''v1''
      in
      case genreIds ps of
        None \<Rightarrow> q7
      | Some ids \<Rightarrow>
          if length ids > 0
          then foldl (\<lambda>q genreId. append_param q ''GenreIds'' (String_number genreId)) q7 ids
          else q7)"

definition searchMovies_url :: "(string \<Rightarrow> string) \<Rightarrow> MovieSearchParams \<Rightarrow> string" where
  "searchMovies_url enc ps = MOVIES @ ''/search?'' @ toString enc (searchMovies_queryParams ps)"

definition searchMovies ::
  "(request_config \<Rightarrow> http_outcome) \<Rightarrow> (string \<Rightarrow> string) \<Rightarrow> world \<Rightarrow> MovieSearchParams
     \<Rightarrow> world \<times> (client_error + jsval)" where
  "searchMovies server enc w ps = apiClient_request server w GET (searchMovies_url enc ps) [] JUndefined"

text \<open>The genre list a search carries: none when the field is absent.\<close>

definition genre_list :: "MovieSearchParams \<Rightarrow> int list" where
  "genre_list ps = (case genreIds ps of None \<Rightarrow> [] | Some ids \<Rightarrow> ids)"

section \<open>app/(tabs)/home.tsx: the accumulated movie list\<close>

text \<open>The response type the screen declares for its query (\<^verbatim>\<open>MovieResponse\<close> of
  movie-service.ts), over any type of movie.\<close>

record 'm MovieResponse =
  items :: "'m list"
  hasNext :: bool
  total :: int
  page_of :: int
  pageSize_of :: int

text \<open>The state of the screen: the \<^verbatim>\<open>useState\<close> cells, what \<^verbatim>\<open>useQuery\<close> returns
  (\<open>data = None\<close> is \<^verbatim>\<open>undefined\<close>), and the dependencies each effect last ran with.\<close>

record 'm home_state =
  page :: int
  allMovies :: "'m list"
  isLoadingMore :: bool
  data :: "'m MovieResponse option"
  isFetching :: bool
  data_page_deps :: "'m MovieResponse option \<times> int"
  fetching_deps :: bool




text \<open>The screen after its first render: nothing fetched yet, both effects have run once.\<close>

definition home_initial :: "'m home_state" where
  "home_initial =
     \<lparr>page = 1, allMovies = [], isLoadingMore = False, data = None, isFetching = True,
      data_page_deps = (None, 1), fetching_deps = True\<rparr>"

text \<open>The body of the effect on \<^verbatim>\<open>[data, page]\<close>.\<close>

definition allMovies_effect :: "'m home_state \<Rightarrow> 'm home_state" where
  "allMovies_effect s =
     (case data s of
        None \<Rightarrow> s
      | Some d \<Rightarrow>
          if page s = 1 then s\<lparr>allMovies := items d\<rparr>
          else s\<lparr>allMovies := allMovies s @ items d\<rparr>)"

text \<open>The body of the effect on \<^verbatim>\<open>[isFetching]\<close>.\<close>

definition loadingMore_effect :: "'m home_state \<Rightarrow> 'm home_state" where
  "loadingMore_effect s = (if isFetching s then s else s\<lparr>isLoadingMore := False\<rparr>)"

text \<open>
  After a render each effect runs only if one of its dependencies differs from the
  value it last ran with. The query library hands out the same \<^verbatim>\<open>data\<close> object as long
  as the key is the same and a fetch delivers an equal body, and a different page number
  is a different key, so comparing the pair of data and page number by value is the
  comparison the effect makes.
\<close>

definition run_effects :: "'m home_state \<Rightarrow> 'm home_state" where
  "run_effects s =
     (let s1 = (if (data s, page s) = data_page_deps s then s
                else (allMovies_effect s)\<lparr>data_page_deps := (data s, page s)\<rparr>)
      in if isFetching s1 = fetching_deps s1 then s1
         else (loadingMore_effect s1)\<lparr>fetching_deps := isFetching s1\<rparr>)"

text \<open>\<^verbatim>\<open>handleRefresh\<close>; \<^verbatim>\<open>refetch()\<close> starts a fetch.\<close>

definition handleRefresh :: "'m home_state \<Rightarrow> 'm home_state" where
  "handleRefresh s = s\<lparr>page := 1, allMovies := [], isFetching := True\<rparr>"



definition query_settled :: "'m MovieResponse \<Rightarrow> 'm home_state \<Rightarrow> 'm home_state" where
  "query_settled r s = run_effects (s\<lparr>data := Some r, isFetching := False\<rparr>)"

section \<open>Run-time schemas\<close>

text \<open>
  The schema combinators the services use: \<^verbatim>\<open>z.any()\<close>, \<^verbatim>\<open>z.number()\<close>, \<^verbatim>\<open>z.string()\<close>,
  \<^verbatim>\<open>z.boolean()\<close>, \<^verbatim>\<open>.nullable()\<close>, \<^verbatim>\<open>.optional()\<close>, \<^verbatim>\<open>.default(v)\<close>, \<^verbatim>\<open>z.array(s)\<close>
  and \<^verbatim>\<open>z.object({...})\<close>.
\<close>

datatype schema =
    ZAny
  | ZNumber
  | ZString
  | ZBoolean
  | ZNullable schema
  | ZOptional schema
  | ZDefault schema jsval
  | ZArray schema
  | ZObject "(string \<times> schema) list"

text \<open>\<^verbatim>\<open>obj[k]\<close> on an object's own properties.\<close>

definition field :: "(string \<times> jsval) list \<Rightarrow> string \<Rightarrow> jsval" where
  "field kvs k = (case map_of kvs k of None \<Rightarrow> JUndefined | Some v \<Rightarrow> v)"

text \<open>
  \<^verbatim>\<open>schema.safeParse(v)\<close>: \<open>None\<close> when the value does not match, otherwise the parsed
  value. An object schema reads each declared key (a missing one as \<^verbatim>\<open>undefined\<close>),
  drops undeclared keys, and leaves out a declared key that is absent from the input
  and parses to \<^verbatim>\<open>undefined\<close>.
\<close>

function (sequential) safeParse :: "schema \<Rightarrow> jsval \<Rightarrow> jsval option"
  and parse_elems :: "schema \<Rightarrow> jsval list \<Rightarrow> jsval list option"
  and parse_shape :: "(string \<times> schema) list \<Rightarrow> (string \<times> jsval) list \<Rightarrow> (string \<times> jsval) list option"
where
  "safeParse ZAny v = Some v"
| "safeParse ZNumber (JNum n) = Some (JNum n)"
| "safeParse ZNumber v = None"
| "safeParse ZString (JStr t) = Some (JStr t)"
| "safeParse ZString v = None"
| "safeParse ZBoolean (JBool b) = Some (JBool b)"
| "safeParse ZBoolean v = None"
| "safeParse (ZNullable s) JNull = Some JNull"
| "safeParse (ZNullable s) v = safeParse s v"
| "safeParse (ZOptional s) JUndefined = Some JUndefined"
| "safeParse (ZOptional s) v = safeParse s v"
| "safeParse (ZDefault s d) JUndefined = safeParse s d"
| "safeParse (ZDefault s d) v = safeParse s v"
| "safeParse (ZArray s) (JArr xs) = map_option JArr (parse_elems s xs)"
| "safeParse (ZArray s) v = None"
| "safeParse (ZObject sh) (JObj kvs) = map_option JObj (parse_shape sh kvs)"
| "safeParse (ZObject sh) v = None"
| "parse_elems s [] = Some []"
| "parse_elems s (x # xs) =
     (case safeParse s x of
        None \<Rightarrow> None
      | Some y \<Rightarrow> (case parse_elems s xs of None \<Rightarrow> None | Some ys \<Rightarrow> Some (y # ys)))"
| "parse_shape [] kvs = Some []"
| "parse_shape ((k, s) # sh) kvs =
     (case safeParse s (field kvs k) of
        None \<Rightarrow> None
      | Some y \<Rightarrow>
          (case parse_shape sh kvs of
             None \<Rightarrow> None
           | Some r \<Rightarrow> Some (if y = JUndefined \<and> map_of kvs k = None then r else (k, y) # r)))"
  by pat_completeness auto
termination
  by (relation "inv_image (less_than <*lex*> less_than)
        (\<lambda>a. case a of
           Inl (s, v) \<Rightarrow> (size s, size v)
         | Inr (Inl (s, xs)) \<Rightarrow> (size s, size_list size xs)
         | Inr (Inr (sh, kvs)) \<Rightarrow> (size_list (size_prod (\<lambda>_. 0) size) sh, 0))")
     auto

text \<open>\<^verbatim>\<open>schema.parse(v)\<close> throws where \<^verbatim>\<open>safeParse\<close> fails.\<close>

definition parse :: "schema \<Rightarrow> jsval \<Rightarrow> client_error + jsval" where
  "parse s v = (case safeParse s v of None \<Rightarrow> Inl ZodError | Some r \<Rightarrow> Inr r)"

text \<open>\<^verbatim>\<open>objectSchema.extend({...})\<close>: a declared key is overridden in place, a new key is
  added at the end.\<close>

fun extend :: "schema \<Rightarrow> (string \<times> schema) list \<Rightarrow> schema" where
  "extend (ZObject sh) aug =
     ZObject (map (\<lambda>ks. (fst ks, case map_of aug (fst ks) of None \<Rightarrow> snd ks | Some s' \<Rightarrow> s')) sh
              @ filter (\<lambda>ks. map_of sh (fst ks) = None) aug)"
| "extend s aug = s"

subsection \<open>services/types.ts\<close>

definition PaginationSchema :: schema where
  "PaginationSchema = ZObject
     [(''items'', ZArray ZAny),
      (''totalCount'', ZNumber),
      (''pageNumber'', ZNumber),
      (''pageSize'', ZNumber),
      (''totalPages'', ZNumber),
      (''hasPrevious'', ZBoolean),
      (''hasNext'', ZBoolean)]"

definition MovieSchema :: schema where
  "MovieSchema = ZObject
     [(''id'', ZNumber),
      (''title'', ZString),
      (''releaseYear'', ZNumber),
      (''plot'', ZNullable ZString),
      (''runtimeMinutes'', ZNumber),
      (''posterUrl'', ZNullable ZString),
      (''directorName'', ZString),
      (''genres'', ZArray ZString),
      (''actors'', ZArray ZString)]"

definition MovieResponseSchema :: schema where
  "MovieResponseSchema = extend PaginationSchema [(''items'', ZArray MovieSchema)]"

definition ActorSchema :: schema where
  "ActorSchema = ZObject
     [(''id'', ZNumber),
      (''name'', ZString),
      (''dateOfBirth'', ZString),
      (''bio'', ZNullable ZString)]"

definition ActorResponseSchema :: schema where
  "ActorResponseSchema = extend PaginationSchema [(''items'', ZArray ActorSchema)]"

definition DirectorSchema :: schema where
  "DirectorSchema = ZObject
     [(''id'', ZNumber),
      (''name'', ZString),
      (''dateOfBirth'', ZString),
      (''bio'', ZNullable ZString)]"

definition DirectorResponseSchema :: schema where
  "DirectorResponseSchema = extend PaginationSchema [(''items'', ZArray DirectorSchema)]"

definition GenreSchema :: schema where
  "GenreSchema = ZObject
     [(''id'', ZNumber),
      (''name'', ZString),
      (''description'', ZNullable ZString)]"

definition GenreResponseSchema :: schema where
  "GenreResponseSchema = extend PaginationSchema [(''items'', ZArray GenreSchema)]"

subsection \<open>The schemas of the people service\<close>

definition people_ActorSchema :: schema where
  "people_ActorSchema = ZObject
     [(''id'', ZNumber),
      (''name'', ZString),
      (''dateOfBirth'', ZString),
      (''bio'', ZNullable ZString),
      (''createdAt'', ZString),
      (''modifiedAt'', ZNullable ZString),
      (''createdBy'', ZNullable ZString),
      (''modifiedBy'', ZNullable ZString),
      (''isDeleted'', ZBoolean)]"

definition PopularActorSchema :: schema where
  "PopularActorSchema = ZObject [(''actor'', people_ActorSchema), (''movieCount'', ZNumber)]"

definition PersonSchema :: schema where
  "PersonSchema = ZObject
     [(''id'', ZNumber),
      (''name'', ZString),
      (''profileImageUrl'', ZOptional (ZNullable ZString)),
      (''biography'', ZOptional (ZNullable ZString)),
      (''birthDate'', ZOptional (ZNullable ZString)),
      (''deathDate'', ZOptional (ZNullable ZString)),
      (''placeOfBirth'', ZOptional (ZNullable ZString)),
      (''isDirector'', ZDefault ZBoolean (JBool False)),
      (''isActor'', ZDefault ZBoolean (JBool False)),
      (''movies'', ZDefault (ZArray (ZObject
          [(''id'', ZNumber),
           (''title'', ZString),
           (''posterUrl'', ZNullable ZString),
           (''releaseDate'', ZNullable ZString),
           (''character'', ZNullable ZString),
           (''job'', ZNullable ZString)])) (JArr []))]"

definition PaginatedPeopleSchema :: schema where
  "PaginatedPeopleSchema = ZObject
     [(''results'', ZArray PersonSchema),
      (''totalCount'', ZNumber),
      (''page'', ZNumber),
      (''totalPages'', ZNumber)]"

subsection \<open>The schemas of the genre service\<close>

definition genre_GenreSchema :: schema where
  "genre_GenreSchema = ZObject
     [(''id'', ZNumber),
      (''name'', ZString),
      (''description'', ZNullable ZString),
      (''createdAt'', ZString),
      (''modifiedAt'', ZNullable ZString),
      (''createdBy'', ZNullable ZString),
      (''modifiedBy'', ZNullable ZString),
      (''isDeleted'', ZBoolean)]"

definition PopularGenreSchema :: schema where
  "PopularGenreSchema = ZObject [(''genre'', genre_GenreSchema), (''movieCount'', ZNumber)]"

definition PaginatedGenresSchema :: schema where
  "PaginatedGenresSchema = ZObject
     [(''items'', ZArray genre_GenreSchema),
      (''totalCount'', ZNumber),
      (''pageNumber'', ZNumber),
      (''pageSize'', ZNumber),
      (''totalPages'', ZNumber),
      (''hasPrevious'', ZBoolean),
      (''hasNext'', ZBoolean)]"

section \<open>The resource services\<close>

text \<open>The remaining endpoints of constants/api.ts.\<close>

definition GENRES :: string where
  "GENRES = ''/api/'' @ API_VERSION @ ''/genres''"

definition GENRE_DETAILS :: "string \<Rightarrow> string" where
  "GENRE_DETAILS i = ''/api/'' @ API_VERSION @ ''/genres/'' @ i"

definition POPULAR_GENRES :: string where
  "POPULAR_GENRES = ''/api/'' @ API_VERSION @ ''/movies/genre/popular''"

definition ACTORS :: string where
  "ACTORS = ''/api/'' @ API_VERSION @ ''/actors''"

definition ACTOR_DETAILS :: "string \<Rightarrow> string" where
  "ACTOR_DETAILS i = ''/api/'' @ API_VERSION @ ''/actors/'' @ i"

definition SEARCH_ACTORS :: string where
  "SEARCH_ACTORS = ''/api/'' @ API_VERSION @ ''/actors/search''"

definition ACTOR_MOVIES :: "string \<Rightarrow> string" where
  "ACTOR_MOVIES i = ''/api/'' @ API_VERSION @ ''/movies/actors/'' @ i"

definition DIRECTORS :: string where
  "DIRECTORS = ''/api/'' @ API_VERSION @ ''/directors''"

definition DIRECTOR_DETAILS :: "string \<Rightarrow> string" where
  "DIRECTOR_DETAILS i = ''/api/'' @ API_VERSION @ ''/directors/'' @ i"

definition SEARCH_DIRECTORS :: string where
  "SEARCH_DIRECTORS = ''/api/'' @ API_VERSION @ ''/directors/search''"

definition POPULAR_PEOPLE :: string where
  "POPULAR_PEOPLE = ''/api/'' @ API_VERSION @ ''/movies/people/popular''"

definition PERSON_DETAILS :: "string \<Rightarrow> string" where
  "PERSON_DETAILS i = ''/api/'' @ API_VERSION @ ''/movies/people/'' @ i"

definition SEARCH_PEOPLE :: string where
  "SEARCH_PEOPLE = ''/api/'' @ API_VERSION @ ''/movies/people/search''"

definition ADMIN_PEOPLE :: string where
  "ADMIN_PEOPLE = ''/api/'' @ API_VERSION @ ''/admin/people''"

text \<open>A parameter with a default value: the default replaces \<^verbatim>\<open>undefined\<close> only.\<close>

definition default_arg :: "int option \<Rightarrow> int \<Rightarrow> int" where
  "default_arg x d = (case x of None \<Rightarrow> d | Some n \<Rightarrow> n)"

text \<open>\<^verbatim>\<open>params: { pageNumber, pageSize, version }\<close> and \<^verbatim>\<open>params: { version }\<close>\<close>

definition page_params :: "int option \<Rightarrow> int option \<Rightarrow> (string \<times> string) list" where
  "page_params pn psz =
     [(''pageNumber'', String_number (default_arg pn 1)),
      (''pageSize'', String_number (default_arg psz 10)),
      (''version'', ''v1'')]"

definition version_params :: "(string \<times> string) list" where
  "version_params = [(''version'', ''v1'')]"

text \<open>\<^verbatim>\<open>await apiClient.put(...)\<close> and \<^verbatim>\<open>delete\<close> in a method that returns nothing.\<close>

definition discard_body :: "world \<times> (client_error + jsval) \<Rightarrow> world \<times> (client_error + jsval)" where
  "discard_body r = (case r of (w1, Inl e) \<Rightarrow> (w1, Inl e) | (w1, Inr d) \<Rightarrow> (w1, Inr JUndefined))"

text \<open>\<^verbatim>\<open>return Schema.parse(response.data)\<close>\<close>

definition parse_body :: "schema \<Rightarrow> world \<times> (client_error + jsval) \<Rightarrow> world \<times> (client_error + jsval)" where
  "parse_body sc r = (case r of (w1, Inl e) \<Rightarrow> (w1, Inl e) | (w1, Inr d) \<Rightarrow> (w1, parse sc d))"

subsection \<open>MovieService\<close>

text \<open>The pause before a page after the first does not change what is sent or returned.\<close>

definition getMovies ::
  "(request_config \<Rightarrow> http_outcome) \<Rightarrow> world \<Rightarrow> int option \<Rightarrow> int option \<Rightarrow> world \<times> (client_error + jsval)" where
  "getMovies server w pn psz = apiClient_request server w GET MOVIES (page_params pn psz) JUndefined"

definition getMovie ::
  "(request_config \<Rightarrow> http_outcome) \<Rightarrow> world \<Rightarrow> int \<Rightarrow> world \<times> (client_error + jsval)" where
  "getMovie server w i =
     apiClient_request server w GET (MOVIES @ ''/'' @ String_number i) version_params JUndefined"

definition createMovie ::
  "(request_config \<Rightarrow> http_outcome) \<Rightarrow> world \<Rightarrow> jsval \<Rightarrow> world \<times> (client_error + jsval)" where
  "createMovie server w movie = apiClient_request server w POST MOVIES version_params movie"

definition updateMovie ::
  "(request_config \<Rightarrow> http_outcome) \<Rightarrow> world \<Rightarrow> int \<Rightarrow> jsval \<Rightarrow> world \<times> (client_error + jsval)" where
  "updateMovie server w i movie =
     discard_body (apiClient_request server w PUT (MOVIES @ ''/'' @ String_number i) version_params movie)"

definition deleteMovie ::
  "(request_config \<Rightarrow> http_outcome) \<Rightarrow> world \<Rightarrow> int \<Rightarrow> world \<times> (client_error + jsval)" where
  "deleteMovie server w i =
     discard_body (apiClient_request server w DELETE (MOVIES @ ''/'' @ String_number i) version_params JUndefined)"

definition getMoviesByActor ::
  "(request_config \<Rightarrow> http_outcome) \<Rightarrow> world \<Rightarrow> int \<Rightarrow> int option \<Rightarrow> int option
     \<Rightarrow> world \<times> (client_error + jsval)" where
  "getMoviesByActor server w actorId pn psz =
     apiClient_request server w GET (MOVIES @ ''/actor/'' @ String_number actorId) (page_params pn psz) JUndefined"

definition getMoviesByGenre ::
  "(request_config \<Rightarrow> http_outcome) \<Rightarrow> world \<Rightarrow> int \<Rightarrow> int option \<Rightarrow> int option
     \<Rightarrow> world \<times> (client_error + jsval)" where
  "getMoviesByGenre server w genreId pn psz =
     apiClient_request server w GET (MOVIES @ ''/genre/'' @ String_number genreId) (page_params pn psz) JUndefined"

subsection \<open>ActorService\<close>

definition query_page_params :: "string \<Rightarrow> int option \<Rightarrow> int option \<Rightarrow> (string \<times> string) list" where
  "query_page_params q pn psz = (''query'', q) # page_params pn psz"

definition getActors ::
  "(request_config \<Rightarrow> http_outcome) \<Rightarrow> world \<Rightarrow> int option \<Rightarrow> int option \<Rightarrow> world \<times> (client_error + jsval)" where
  "getActors server w pn psz = apiClient_request server w GET ACTORS (page_params pn psz) JUndefined"

definition getActor ::
  "(request_config \<Rightarrow> http_outcome) \<Rightarrow> world \<Rightarrow> int \<Rightarrow> world \<times> (client_error + jsval)" where
  "getActor server w i =
     apiClient_request server w GET (ACTOR_DETAILS (String_number i)) version_params JUndefined"

definition createActor ::
  "(request_config \<Rightarrow> http_outcome) \<Rightarrow> world \<Rightarrow> jsval \<Rightarrow> world \<times> (client_error + jsval)" where
  "createActor server w actor = apiClient_request server w POST ACTORS version_params actor"

definition updateActor ::
  "(request_config \<Rightarrow> http_outcome) \<Rightarrow> world \<Rightarrow> int \<Rightarrow> jsval \<Rightarrow> world \<times> (client_error + jsval)" where
  "updateActor server w i actor =
     discard_body (apiClient_request server w PUT (ACTOR_DETAILS (String_number i)) version_params actor)"

definition deleteActor ::
  "(request_config \<Rightarrow> http_outcome) \<Rightarrow> world \<Rightarrow> int \<Rightarrow> world \<times> (client_error + jsval)" where
  "deleteActor server w i =
     discard_body (apiClient_request server w DELETE (ACTOR_DETAILS (String_number i)) version_params JUndefined)"

definition searchActors ::
  "(request_config \<Rightarrow> http_outcome) \<Rightarrow> world \<Rightarrow> string \<Rightarrow> int option \<Rightarrow> int option
     \<Rightarrow> world \<times> (client_error + jsval)" where
  "searchActors server w q pn psz =
     apiClient_request server w GET SEARCH_ACTORS (query_page_params q pn psz) JUndefined"

definition getActorMovies ::
  "(request_config \<Rightarrow> http_outcome) \<Rightarrow> world \<Rightarrow> int \<Rightarrow> int option \<Rightarrow> int option
     \<Rightarrow> world \<times> (client_error + jsval)" where
  "getActorMovies server w i pn psz =
     apiClient_request server w GET (ACTOR_MOVIES (String_number i)) (page_params pn psz) JUndefined"

subsection \<open>DirectorService\<close>

definition getDirectors ::
  "(request_config \<Rightarrow> http_outcome) \<Rightarrow> world \<Rightarrow> int option \<Rightarrow> int option \<Rightarrow> world \<times> (client_error + jsval)" where
  "getDirectors server w pn psz = apiClient_request server w GET DIRECTORS (page_params pn psz) JUndefined"

definition getDirector ::
  "(request_config \<Rightarrow> http_outcome) \<Rightarrow> world \<Rightarrow> int \<Rightarrow> world \<times> (client_error + jsval)" where
  "getDirector server w i =
     apiClient_request server w GET (DIRECTOR_DETAILS (String_number i)) version_params JUndefined"

definition createDirector ::
  "(request_config \<Rightarrow> http_outcome) \<Rightarrow> world \<Rightarrow> jsval \<Rightarrow> world \<times> (client_error + jsval)" where
  "createDirector server w director = apiClient_request server w POST DIRECTORS version_params director"

definition updateDirector ::
  "(request_config \<Rightarrow> http_outcome) \<Rightarrow> world \<Rightarrow> int \<Rightarrow> jsval \<Rightarrow> world \<times> (client_error + jsval)" where
  "updateDirector server w i director =
     discard_body (apiClient_request server w PUT (DIRECTOR_DETAILS (String_number i)) version_params director)"

definition deleteDirector ::
  "(request_config \<Rightarrow> http_outcome) \<Rightarrow> world \<Rightarrow> int \<Rightarrow> world \<times> (client_error + jsval)" where
  "deleteDirector server w i =
     discard_body (apiClient_request server w DELETE (DIRECTOR_DETAILS (String_number i)) version_params JUndefined)"

definition searchDirectors ::
  "(request_config \<Rightarrow> http_outcome) \<Rightarrow> world \<Rightarrow> string \<Rightarrow> int option \<Rightarrow> int option
     \<Rightarrow> world \<times> (client_error + jsval)" where
  "searchDirectors server w q pn psz =
     apiClient_request server w GET SEARCH_DIRECTORS (query_page_params q pn psz) JUndefined"

subsection \<open>GenreService\<close>

definition getGenres ::
  "(request_config \<Rightarrow> http_outcome) \<Rightarrow> world \<Rightarrow> int option \<Rightarrow> int option \<Rightarrow> world \<times> (client_error + jsval)" where
  "getGenres server w pn psz = apiClient_request server w GET GENRES (page_params pn psz) JUndefined"

definition getGenre ::
  "(request_config \<Rightarrow> http_outcome) \<Rightarrow> world \<Rightarrow> string \<Rightarrow> world \<times> (client_error + jsval)" where
  "getGenre server w i = apiClient_request server w GET (GENRE_DETAILS i) version_params JUndefined"

definition createGenre ::
  "(request_config \<Rightarrow> http_outcome) \<Rightarrow> world \<Rightarrow> jsval \<Rightarrow> world \<times> (client_error + jsval)" where
  "createGenre server w genre = apiClient_request server w POST GENRES version_params genre"

definition updateGenre ::
  "(request_config \<Rightarrow> http_outcome) \<Rightarrow> world \<Rightarrow> string \<Rightarrow> jsval \<Rightarrow> world \<times> (client_error + jsval)" where
  "updateGenre server w i genre =
     discard_body (apiClient_request server w PUT (GENRE_DETAILS i) version_params genre)"

definition deleteGenre ::
  "(request_config \<Rightarrow> http_outcome) \<Rightarrow> world \<Rightarrow> string \<Rightarrow> world \<times> (client_error + jsval)" where
  "deleteGenre server w i =
     discard_body (apiClient_request server w DELETE (GENRE_DETAILS i) version_params JUndefined)"

text \<open>\<^verbatim>\<open>response.data.items.map(genre => genre.name)\<close>: a property read on \<^verbatim>\<open>null\<close> or
  \<^verbatim>\<open>undefined\<close> throws, and so does \<^verbatim>\<open>.map\<close> on anything but an array.\<close>

fun genre_names :: "jsval list \<Rightarrow> client_error + jsval list" where
  "genre_names [] = Inr []"
| "genre_names (g # gs) =
     (case get_prop g ''name'' of
        Inl e \<Rightarrow> Inl e
      | Inr n \<Rightarrow> (case genre_names gs of Inl e \<Rightarrow> Inl e | Inr ns \<Rightarrow> Inr (n # ns)))"

definition getAllGenres ::
  "(request_config \<Rightarrow> http_outcome) \<Rightarrow> world \<Rightarrow> world \<times> (client_error + jsval)" where
  "getAllGenres server w =
     (case apiClient_request server w GET GENRES [(''pageSize'', ''100''), (''version'', ''v1'')] JUndefined of
        (w1, Inl e) \<Rightarrow> (w1, Inl e)
      | (w1, Inr d) \<Rightarrow>
          (case get_prop d ''items'' of
             Inl e \<Rightarrow> (w1, Inl e)
           | Inr (JArr gs) \<Rightarrow> (case genre_names gs of Inl e \<Rightarrow> (w1, Inl e) | Inr ns \<Rightarrow> (w1, Inr (JArr ns)))
           | Inr other \<Rightarrow> (w1, Inl TypeError)))"

definition getPopularGenres ::
  "(request_config \<Rightarrow> http_outcome) \<Rightarrow> world \<Rightarrow> world \<times> (client_error + jsval)" where
  "getPopularGenres server w =
     parse_body (ZArray PopularGenreSchema)
       (apiClient_request server w GET POPULAR_GENRES version_params JUndefined)"

subsection \<open>The people service\<close>

text \<open>Each method catches, logs and rethrows: errors pass through unchanged.\<close>

datatype person_type = actor | director | all_people

fun person_type_text :: "person_type \<Rightarrow> string" where
  "person_type_text actor = ''actor''"
| "person_type_text director = ''director''"
| "person_type_text all_people = ''all''"

record PeopleSearchParams =
  people_query :: "string option"
  people_type :: "person_type option"
  people_page :: "int option"
  people_limit :: "int option"

text \<open>\<^verbatim>\<open>{ params }\<close>: the HTTP library sends the fields that are defined.\<close>

definition people_params :: "PeopleSearchParams \<Rightarrow> (string \<times> string) list" where
  "people_params ps =
     (case people_query ps of None \<Rightarrow> [] | Some q \<Rightarrow> [(''query'', q)])
     @ (case people_type ps of None \<Rightarrow> [] | Some t \<Rightarrow> [(''type'', person_type_text t)])
     @ (case people_page ps of None \<Rightarrow> [] | Some n \<Rightarrow> [(''page'', String_number n)])
     @ (case people_limit ps of None \<Rightarrow> [] | Some n \<Rightarrow> [(''limit'', String_number n)])"

definition getPopularPeople ::
  "(request_config \<Rightarrow> http_outcome) \<Rightarrow> world \<Rightarrow> world \<times> (client_error + jsval)" where
  "getPopularPeople server w =
     parse_body (ZArray PopularActorSchema) (apiClient_request server w GET POPULAR_PEOPLE [] JUndefined)"

definition getPersonDetails ::
  "(request_config \<Rightarrow> http_outcome) \<Rightarrow> world \<Rightarrow> string \<Rightarrow> world \<times> (client_error + jsval)" where
  "getPersonDetails server w i =
     parse_body PersonSchema (apiClient_request server w GET (PERSON_DETAILS i) [] JUndefined)"

definition searchPeople ::
  "(request_config \<Rightarrow> http_outcome) \<Rightarrow> world \<Rightarrow> PeopleSearchParams \<Rightarrow> world \<times> (client_error + jsval)" where
  "searchPeople server w ps =
     parse_body PaginatedPeopleSchema (apiClient_request server w GET SEARCH_PEOPLE (people_params ps) JUndefined)"

definition getFilmography ::
  "(request_config \<Rightarrow> http_outcome) \<Rightarrow> world \<Rightarrow> string \<Rightarrow> world \<times> (client_error + jsval)" where
  "getFilmography server w i =
     apiClient_request server w GET (PERSON_DETAILS i @ ''/filmography'') [] JUndefined"

definition createPerson ::
  "(request_config \<Rightarrow> http_outcome) \<Rightarrow> world \<Rightarrow> jsval \<Rightarrow> world \<times> (client_error + jsval)" where
  "createPerson server w personData =
     parse_body PersonSchema (apiClient_request server w POST ADMIN_PEOPLE [] personData)"

definition updatePerson ::
  "(request_config \<Rightarrow> http_outcome) \<Rightarrow> world \<Rightarrow> string \<Rightarrow> jsval \<Rightarrow> world \<times> (client_error + jsval)" where
  "updatePerson server w i personData =
     parse_body PersonSchema (apiClient_request server w PUT (ADMIN_PEOPLE @ ''/'' @ i) [] personData)"

definition deletePerson ::
  "(request_config \<Rightarrow> http_outcome) \<Rightarrow> world \<Rightarrow> string \<Rightarrow> world \<times> (client_error + jsval)" where
  "deletePerson server w i =
     discard_body (apiClient_request server w DELETE (ADMIN_PEOPLE @ ''/'' @ i) [] JUndefined)"

section \<open>Concrete inputs\<close>

text \<open>A server that answers every request with the given status and body.\<close>

definition answering :: "nat \<Rightarrow> jsval \<Rightarrow> request_config \<Rightarrow> http_outcome" where
  "answering st d = (\<lambda>config. HttpResponse st d)"

text \<open>A connected device with the given storage and nothing recorded yet.\<close>

definition online :: "(string \<rightharpoonup> string) \<Rightarrow> world" where
  "online st = \<lparr>storage = st, isConnected = Some True, platformOS = ''ios'', trace = []\<rparr>"

definition offline :: "(string \<rightharpoonup> string) \<Rightarrow> world" where
  "offline st = \<lparr>storage = st, isConnected = Some False, platformOS = ''ios'', trace = []\<rparr>"

text \<open>A stand-in for \<^verbatim>\<open>JSON.stringify\<close> where its output does not matter.\<close>

definition blank_stringify :: "jsval \<Rightarrow> string" where
  "blank_stringify v = ''{}''"

text \<open>What the specification says of a paginated response:
  \<open>totalPages = ceil(totalCount / pageSize)\<close> and \<open>hasNext = (pageNumber < totalPages)\<close>.\<close>

definition spec_pagination_invariant :: "jsval \<Rightarrow> bool" where
  "spec_pagination_invariant d =
     (case (get_prop_opt d ''totalCount'', get_prop_opt d ''pageSize'', get_prop_opt d ''totalPages'',
            get_prop_opt d ''pageNumber'', get_prop_opt d ''hasNext'') of
        (JNum tc, JNum psz, JNum tp, JNum pn, JBool hn) \<Rightarrow>
          psz \<noteq> 0 \<and> tp = of_int \<lceil>tc / psz\<rceil> \<and> hn = (pn < tp)
      | other \<Rightarrow> False)"

text \<open>A paginated body with the given fields.\<close>

definition paginated :: "jsval list \<Rightarrow> real \<Rightarrow> real \<Rightarrow> real \<Rightarrow> real \<Rightarrow> bool \<Rightarrow> bool \<Rightarrow> jsval" where
  "paginated its tc pn psz tp hp hn = JObj
     [(''items'', JArr its),
      (''totalCount'', JNum tc),
      (''pageNumber'', JNum pn),
      (''pageSize'', JNum psz),
      (''totalPages'', JNum tp),
      (''hasPrevious'', JBool hp),
      (''hasNext'', JBool hn)]"

text \<open>The configuration the request interceptor lets through, if it does.\<close>

definition outgoing :: "world \<Rightarrow> request_config \<Rightarrow> request_config option" where
  "outgoing w config = (case snd (request_interceptor w config) of Inl e \<Rightarrow> None | Inr c \<Rightarrow> Some c)"

section \<open>The shared HTTP client\<close>

lemma keys_distinct: "TOKEN_STORAGE_KEY \<noteq> USER_DATA_KEY"
  by (simp add: TOKEN_STORAGE_KEY_def USER_DATA_KEY_def)

lemma logout_eq:
  "logout w = w\<lparr>storage := (storage w)(TOKEN_STORAGE_KEY := None),
               trace := trace w @ [StorageRemove TOKEN_STORAGE_KEY]\<rparr>"
  by (simp add: logout_def removeItem_def emit_def)

lemma request_interceptor_offline:
  "isConnected w \<noteq> Some True \<Longrightarrow>
   request_interceptor w cfg = (emit NetInfoFetch w, Inl (JsError (JStr ''No internet connection'')))"
  by (simp add: request_interceptor_def Let_def emit_def)

lemma response_rejected_other:
  "response_status e \<noteq> Some 401 \<Longrightarrow> response_rejected w e = (w, e)"
  by (simp add: response_rejected_def)

lemma response_rejected_401:
  "response_rejected w (AxiosError (Some (401, d))) =
     (logout w, JsError (JStr ''Session expired. Please login again.''))"
  by (simp add: response_rejected_def)

lemma request_interceptor_online:
  "isConnected w = Some True \<Longrightarrow>
   request_interceptor w cfg =
     (w\<lparr>trace := trace w @ [NetInfoFetch, StorageGet TOKEN_STORAGE_KEY]\<rparr>,
      Inr (case storage w TOKEN_STORAGE_KEY of
             None \<Rightarrow> cfg
           | Some t \<Rightarrow>
               if t \<noteq> []
               then cfg\<lparr>headers := set_header ''Authorization'' (''Bearer '' @ t) (headers cfg)\<rparr>
               else cfg))"
  by (simp add: request_interceptor_def Let_def emit_def getItem_def split: option.splits)

lemma outgoing_online:
  "isConnected w = Some True \<Longrightarrow>
   outgoing w cfg =
     Some (case storage w TOKEN_STORAGE_KEY of
             None \<Rightarrow> cfg
           | Some t \<Rightarrow>
               if t \<noteq> []
               then cfg\<lparr>headers := set_header ''Authorization'' (''Bearer '' @ t) (headers cfg)\<rparr>
               else cfg)"
  by (simp add: outgoing_def request_interceptor_online)

lemma outgoing_offline: "isConnected w \<noteq> Some True \<Longrightarrow> outgoing w cfg = None"
  by (simp add: outgoing_def request_interceptor_offline)

lemma get_header_set: "get_header (cfg\<lparr>headers := set_header k v hs\<rparr>) k = Some v"
  by (simp add: get_header_def set_header_def)

lemma get_header_mk_config: "get_header (mk_config w m u ps b) ''Authorization'' = None"
  by (simp add: get_header_def mk_config_def default_headers_def)

text \<open>One call of a connected device, by what the server does with the request sent.\<close>

lemma apiClient_request_online:
  assumes "isConnected w = Some True"
  shows "\<exists>c. outgoing w (mk_config w m u ps b) = Some c \<and>
     apiClient_request server w m u ps b =
       (case server c of
          HttpResponse st d \<Rightarrow>
            if 200 \<le> st \<and> st < 300
            then (w\<lparr>trace := trace w @ [NetInfoFetch, StorageGet TOKEN_STORAGE_KEY, HttpDispatch c]\<rparr>, Inr d)
            else if st = 401
            then (w\<lparr>storage := (storage w)(TOKEN_STORAGE_KEY := None),
                    trace := trace w @ [NetInfoFetch, StorageGet TOKEN_STORAGE_KEY, HttpDispatch c,
                                        StorageRemove TOKEN_STORAGE_KEY]\<rparr>,
                  Inl (JsError (JStr ''Session expired. Please login again.'')))
            else (w\<lparr>trace := trace w @ [NetInfoFetch, StorageGet TOKEN_STORAGE_KEY, HttpDispatch c]\<rparr>,
                  Inl (AxiosError (Some (st, d))))
        | NoResponse \<Rightarrow>
            (w\<lparr>trace := trace w @ [NetInfoFetch, StorageGet TOKEN_STORAGE_KEY, HttpDispatch c]\<rparr>,
             Inl (AxiosError None)))"
  using assms
  by (auto simp add: apiClient_request_def request_interceptor_online outgoing_online Let_def emit_def
        response_rejected_def logout_eq split: http_outcome.splits)

text \<open>What a connected device records for one call: the connectivity check, the token
  read, one dispatch, and after it at most the removal of the token.\<close>

lemma dispatched_config:
  assumes "isConnected w = Some True"
  shows "\<exists>c rest. outgoing w (mk_config w m u ps b) = Some c
      \<and> trace (fst (apiClient_request server w m u ps b))
          = trace w @ [NetInfoFetch, StorageGet TOKEN_STORAGE_KEY, HttpDispatch c] @ rest
      \<and> (rest = [] \<or> rest = [StorageRemove TOKEN_STORAGE_KEY])"
proof -
  from apiClient_request_online [OF assms, of m u ps b server]
  obtain c where c: "outgoing w (mk_config w m u ps b) = Some c"
    and r: "apiClient_request server w m u ps b =
       (case server c of
          HttpResponse st d \<Rightarrow>
            if 200 \<le> st \<and> st < 300
            then (w\<lparr>trace := trace w @ [NetInfoFetch, StorageGet TOKEN_STORAGE_KEY, HttpDispatch c]\<rparr>, Inr d)
            else if st = 401
            then (w\<lparr>storage := (storage w)(TOKEN_STORAGE_KEY := None),
                    trace := trace w @ [NetInfoFetch, StorageGet TOKEN_STORAGE_KEY, HttpDispatch c,
                                        StorageRemove TOKEN_STORAGE_KEY]\<rparr>,
                  Inl (JsError (JStr ''Session expired. Please login again.'')))
            else (w\<lparr>trace := trace w @ [NetInfoFetch, StorageGet TOKEN_STORAGE_KEY, HttpDispatch c]\<rparr>,
                  Inl (AxiosError (Some (st, d))))
        | NoResponse \<Rightarrow>
            (w\<lparr>trace := trace w @ [NetInfoFetch, StorageGet TOKEN_STORAGE_KEY, HttpDispatch c]\<rparr>,
             Inl (AxiosError None)))"
    by blast
  have "\<exists>rest. trace (fst (apiClient_request server w m u ps b))
          = trace w @ [NetInfoFetch, StorageGet TOKEN_STORAGE_KEY, HttpDispatch c] @ rest
      \<and> (rest = [] \<or> rest = [StorageRemove TOKEN_STORAGE_KEY])"
    unfolding r by (cases "server c") auto
  with c show ?thesis by blast
qed

text \<open>\<^verbatim>\<open>login\<close> stores whatever string the server returns as the token, the empty string
  included.\<close>

lemma login_stores_returned_token:
  assumes "isConnected w = Some True"
  shows "storage (fst (login (answering 200 (JObj [(''token'', JStr t), (''username'', JStr n)]))
                         stringify w s n p)) TOKEN_STORAGE_KEY = Some t"
proof -
  obtain c where c:
    "apiClient_request (answering 200 (JObj [(''token'', JStr t), (''username'', JStr n)])) w POST LOGIN []
        (JObj [(''username'', JStr n), (''password'', JStr p)]) =
     (w\<lparr>trace := trace w @ [NetInfoFetch, StorageGet TOKEN_STORAGE_KEY, HttpDispatch c]\<rparr>,
      Inr (JObj [(''token'', JStr t), (''username'', JStr n)]))"
    using apiClient_request_online [OF assms, of POST LOGIN "[]" _ "answering 200 _"]
    by (auto simp: answering_def)
  show ?thesis
    by (simp add: login_def Let_def c emit_def keys_distinct)
qed

text \<open>
  C1 (as amended). For every request the interceptor lets out: if a non-empty token is
  stored under the token key, the request carries an Authorization header that is
  exactly \<open>Bearer\<close>, a space, and the stored token; if no token is stored, or the stored
  value is the empty string, the interceptor leaves the headers as they are. So the one
  request a call of the client dispatches has that header in the first case and no
  Authorization header in the second.
\<close>

theorem C1_bearer_token:
  "isConnected w = Some True \<Longrightarrow>
   (\<exists>c. outgoing w config = Some c \<and>
         get_header c ''Authorization'' =
           (case storage w TOKEN_STORAGE_KEY of
              None \<Rightarrow> get_header config ''Authorization''
            | Some t \<Rightarrow> if t = [] then get_header config ''Authorization''
                        else Some (''Bearer '' @ t)))
   \<and> (\<exists>c rest.
         trace (fst (apiClient_request server w m u ps b))
           = trace w @ [NetInfoFetch, StorageGet TOKEN_STORAGE_KEY, HttpDispatch c] @ rest
         \<and> (rest = [] \<or> rest = [StorageRemove TOKEN_STORAGE_KEY])
         \<and> get_header c ''Authorization'' =
           (case storage w TOKEN_STORAGE_KEY of
              None \<Rightarrow> None
            | Some t \<Rightarrow> if t = [] then None else Some (''Bearer '' @ t)))"
proof -
  assume on: "isConnected w = Some True"
  from dispatched_config [OF on, of m u ps b server]
  obtain c rest where c: "outgoing w (mk_config w m u ps b) = Some c"
    and t: "trace (fst (apiClient_request server w m u ps b))
          = trace w @ [NetInfoFetch, StorageGet TOKEN_STORAGE_KEY, HttpDispatch c] @ rest"
    and n: "rest = [] \<or> rest = [StorageRemove TOKEN_STORAGE_KEY]"
    by blast
  have "get_header c ''Authorization'' =
           (case storage w TOKEN_STORAGE_KEY of
              None \<Rightarrow> None
            | Some t \<Rightarrow> if t = [] then None else Some (''Bearer '' @ t))"
    using c unfolding outgoing_online [OF on]
    by (auto simp add: get_header_set get_header_mk_config split: option.splits)
  with t n have second: "\<exists>c rest.
         trace (fst (apiClient_request server w m u ps b))
           = trace w @ [NetInfoFetch, StorageGet TOKEN_STORAGE_KEY, HttpDispatch c] @ rest
         \<and> (rest = [] \<or> rest = [StorageRemove TOKEN_STORAGE_KEY])
         \<and> get_header c ''Authorization'' =
           (case storage w TOKEN_STORAGE_KEY of
              None \<Rightarrow> None
            | Some t \<Rightarrow> if t = [] then None else Some (''Bearer '' @ t))"
    by blast
  show ?thesis
    using second
    by (simp add: outgoing_online [OF on] get_header_set split: option.splits)
qed

theorem C1_bearer_token_witness:
  "isConnected (online [TOKEN_STORAGE_KEY \<mapsto> ''abc123'']) = Some True
   \<and> map_option (\<lambda>c. get_header c ''Authorization'')
        (outgoing (online [TOKEN_STORAGE_KEY \<mapsto> ''abc123''])
           (mk_config (online [TOKEN_STORAGE_KEY \<mapsto> ''abc123'']) GET MOVIES [] JUndefined))
      = Some (Some ''Bearer abc123'')"
  using C1_bearer_token [of "online [TOKEN_STORAGE_KEY \<mapsto> ''abc123'']"
      "mk_config (online [TOKEN_STORAGE_KEY \<mapsto> ''abc123'']) GET MOVIES [] JUndefined"]
  by (auto simp add: online_def)

text \<open>
  C1 as stated fails: with the empty string stored under the token key, the request
  goes out with no Authorization header at all.
\<close>

theorem C1_empty_token_counterexample:
  "isConnected (online [TOKEN_STORAGE_KEY \<mapsto> '''']) = Some True
   \<and> storage (online [TOKEN_STORAGE_KEY \<mapsto> '''']) TOKEN_STORAGE_KEY = Some ''''
   \<and> map_option (\<lambda>c. get_header c ''Authorization'')
        (outgoing (online [TOKEN_STORAGE_KEY \<mapsto> ''''])
           (mk_config (online [TOKEN_STORAGE_KEY \<mapsto> '''']) GET MOVIES [] JUndefined))
      = Some None"
  by (simp add: outgoing_online get_header_mk_config online_def)

text \<open>
  C2. On a response with status 401 the token is removed from the store, with no call
  after the dispatch other than that removal, a read of the token key then finds
  nothing, and the caller gets the session-expired error; any other error response
  reaches the caller unchanged, and so does every error whose status is not 401.
\<close>

theorem C2_unauthorized_clears_token:
  "isConnected w = Some True \<Longrightarrow>
   (\<exists>c. apiClient_request (answering 401 d) w m u ps b =
          (w\<lparr>storage := (storage w)(TOKEN_STORAGE_KEY := None),
             trace := trace w @ [NetInfoFetch, StorageGet TOKEN_STORAGE_KEY, HttpDispatch c,
                                 StorageRemove TOKEN_STORAGE_KEY]\<rparr>,
           Inl (JsError (JStr ''Session expired. Please login again.''))))
   \<and> snd (getItem (fst (apiClient_request (answering 401 d) w m u ps b)) TOKEN_STORAGE_KEY) = None
   \<and> (st \<noteq> 401 \<and> \<not> (200 \<le> st \<and> st < 300) \<longrightarrow>
        snd (apiClient_request (answering st d) w m u ps b) = Inl (AxiosError (Some (st, d)))
        \<and> storage (fst (apiClient_request (answering st d) w m u ps b)) = storage w)
   \<and> response_rejected w (AxiosError (Some (401, d))) =
        (w\<lparr>storage := (storage w)(TOKEN_STORAGE_KEY := None),
           trace := trace w @ [StorageRemove TOKEN_STORAGE_KEY]\<rparr>,
         JsError (JStr ''Session expired. Please login again.''))
   \<and> (response_status e \<noteq> Some 401 \<longrightarrow> response_rejected w e = (w, e))"
proof -
  assume on: "isConnected w = Some True"
  obtain c where c: "apiClient_request (answering 401 d) w m u ps b =
          (w\<lparr>storage := (storage w)(TOKEN_STORAGE_KEY := None),
             trace := trace w @ [NetInfoFetch, StorageGet TOKEN_STORAGE_KEY, HttpDispatch c,
                                 StorageRemove TOKEN_STORAGE_KEY]\<rparr>,
           Inl (JsError (JStr ''Session expired. Please login again.'')))"
    using apiClient_request_online [OF on, of m u ps b "answering 401 d"]
    by (auto simp: answering_def)
  have other: "st \<noteq> 401 \<and> \<not> (200 \<le> st \<and> st < 300) \<longrightarrow>
        snd (apiClient_request (answering st d) w m u ps b) = Inl (AxiosError (Some (st, d)))
        \<and> storage (fst (apiClient_request (answering st d) w m u ps b)) = storage w"
    using apiClient_request_online [OF on, of m u ps b "answering st d"]
    by (auto simp: answering_def)
  show ?thesis
    using c other
    by (auto simp add: getItem_def response_rejected_401 logout_eq response_rejected_other)
qed

theorem C2_unauthorized_witness:
  "isConnected (online [TOKEN_STORAGE_KEY \<mapsto> ''abc123'']) = Some True
   \<and> snd (apiClient_request (answering 401 JNull) (online [TOKEN_STORAGE_KEY \<mapsto> ''abc123'']) GET MOVIES [] JUndefined)
       = Inl (JsError (JStr ''Session expired. Please login again.''))
   \<and> storage (fst (apiClient_request (answering 401 JNull) (online [TOKEN_STORAGE_KEY \<mapsto> ''abc123'']) GET MOVIES [] JUndefined))
        TOKEN_STORAGE_KEY = None
   \<and> snd (apiClient_request (answering 500 JNull) (online [TOKEN_STORAGE_KEY \<mapsto> ''abc123'']) GET MOVIES [] JUndefined)
       = Inl (AxiosError (Some (500, JNull)))
   \<and> response_status (AxiosError (Some (500, JNull))) \<noteq> Some 401"
  using C2_unauthorized_clears_token
    [of "online [TOKEN_STORAGE_KEY \<mapsto> ''abc123'']" JNull GET MOVIES "[]" JUndefined 500 "AxiosError (Some (500, JNull))"]
  by (auto simp add: online_def)

text \<open>
  C3. A request attempted while the device is not connected is rejected with the
  \<open>No internet connection\<close> error; the only call made is the connectivity check: the
  token is not read, no header is attached and nothing is dispatched, whatever the
  server would have answered.
\<close>

theorem C3_offline_rejects_before_dispatch:
  "isConnected w \<noteq> Some True \<Longrightarrow>
   apiClient_request server w m u ps b =
     (w\<lparr>trace := trace w @ [NetInfoFetch]\<rparr>, Inl (JsError (JStr ''No internet connection'')))"
  by (simp add: apiClient_request_def request_interceptor_offline response_rejected_other emit_def)

theorem C3_offline_witness:
  "isConnected (offline [TOKEN_STORAGE_KEY \<mapsto> ''abc123'']) \<noteq> Some True
   \<and> apiClient_request (answering 200 JNull) (offline [TOKEN_STORAGE_KEY \<mapsto> ''abc123'']) GET MOVIES [] JUndefined =
       (\<lparr>storage = [TOKEN_STORAGE_KEY \<mapsto> ''abc123''], isConnected = Some False, platformOS = ''ios'',
         trace = [NetInfoFetch]\<rparr>,
        Inl (JsError (JStr ''No internet connection'')))"
  using C3_offline_rejects_before_dispatch
    [of "offline [TOKEN_STORAGE_KEY \<mapsto> ''abc123'']" "answering 200 JNull" GET MOVIES "[]" JUndefined]
  by (simp add: offline_def)

text \<open>
  C10. The helper \<^verbatim>\<open>logout\<close>, which the client runs on an unauthorized response, removes
  the token key and nothing else: the stored profile and every other key stay as they
  are. The \<^verbatim>\<open>logoutUser\<close> action removes the profile key as well.
\<close>

theorem C10_logout_removes_only_token:
  "storage (logout w) = (storage w)(TOKEN_STORAGE_KEY := None)
   \<and> storage (logout w) USER_DATA_KEY = storage w USER_DATA_KEY
   \<and> storage (fst (response_rejected w (AxiosError (Some (401, d))))) = (storage w)(TOKEN_STORAGE_KEY := None)
   \<and> storage (fst (logoutUser w s)) = (storage w)(TOKEN_STORAGE_KEY := None, USER_DATA_KEY := None)"
  by (simp add: response_rejected_401 logout_eq logoutUser_def Let_def removeItem_def emit_def
        keys_distinct keys_distinct [symmetric])

theorem C10_logout_witness:
  "storage (logout (online [TOKEN_STORAGE_KEY \<mapsto> ''abc123'', USER_DATA_KEY \<mapsto> ''{}'', ''app_color_mode'' \<mapsto> ''dark'']))
     = [USER_DATA_KEY \<mapsto> ''{}'', ''app_color_mode'' \<mapsto> ''dark'']
   \<and> storage (fst (logoutUser (online [TOKEN_STORAGE_KEY \<mapsto> ''abc123'', USER_DATA_KEY \<mapsto> ''{}'', ''app_color_mode'' \<mapsto> ''dark'']) initialState))
     = [''app_color_mode'' \<mapsto> ''dark'']"
  using C10_logout_removes_only_token
    [of "online [TOKEN_STORAGE_KEY \<mapsto> ''abc123'', USER_DATA_KEY \<mapsto> ''{}'', ''app_color_mode'' \<mapsto> ''dark'']" JNull initialState]
  by (auto simp add: online_def TOKEN_STORAGE_KEY_def USER_DATA_KEY_def fun_eq_iff)


section \<open>Registration without a token\<close>

text \<open>A call that succeeds ran on a connected device, stored nothing and made one
  dispatch.\<close>

lemma apiClient_request_success:
  assumes "apiClient_request server w m u ps b = (w1, Inr d)"
  shows "\<exists>c. w1 = w\<lparr>trace := trace w @ [NetInfoFetch, StorageGet TOKEN_STORAGE_KEY, HttpDispatch c]\<rparr>"
proof (cases "isConnected w = Some True")
  case True
  from apiClient_request_online [OF True, of m u ps b server]
  obtain c where c: "apiClient_request server w m u ps b =
       (case server c of
          HttpResponse st d \<Rightarrow>
            if 200 \<le> st \<and> st < 300
            then (w\<lparr>trace := trace w @ [NetInfoFetch, StorageGet TOKEN_STORAGE_KEY, HttpDispatch c]\<rparr>, Inr d)
            else if st = 401
            then (w\<lparr>storage := (storage w)(TOKEN_STORAGE_KEY := None),
                    trace := trace w @ [NetInfoFetch, StorageGet TOKEN_STORAGE_KEY, HttpDispatch c,
                                        StorageRemove TOKEN_STORAGE_KEY]\<rparr>,
                  Inl (JsError (JStr ''Session expired. Please login again.'')))
            else (w\<lparr>trace := trace w @ [NetInfoFetch, StorageGet TOKEN_STORAGE_KEY, HttpDispatch c]\<rparr>,
                  Inl (AxiosError (Some (st, d))))
        | NoResponse \<Rightarrow>
            (w\<lparr>trace := trace w @ [NetInfoFetch, StorageGet TOKEN_STORAGE_KEY, HttpDispatch c]\<rparr>,
             Inl (AxiosError None)))"
    by blast
  show ?thesis
    using assms unfolding c
    by (cases "server c") (auto split: if_splits)
next
  case False
  have "apiClient_request server w m u ps b =
     (w\<lparr>trace := trace w @ [NetInfoFetch]\<rparr>, Inl (JsError (JStr ''No internet connection'')))"
    using False
    by (simp add: apiClient_request_def request_interceptor_offline response_rejected_other emit_def)
  with assms show ?thesis by simp
qed

lemma get_prop_defined:
  "d \<noteq> JNull \<Longrightarrow> d \<noteq> JUndefined \<Longrightarrow> get_prop d k = Inr (get_prop_opt d k)"
  by (cases d) simp_all

text \<open>
  C9 (as amended). If the HTTP call of \<^verbatim>\<open>register\<close> succeeds with a body other than
  \<^verbatim>\<open>null\<close> whose token is absent or falsy, then \<^verbatim>\<open>REGISTER_SUCCESS\<close> is dispatched with a
  user object, the session is authenticated and \<^verbatim>\<open>register\<close> returns true, while
  nothing is written to the store: neither the token key nor the profile key.
\<close>

theorem C9_register_without_token:
  assumes call: "apiClient_request server w POST REGISTER []
                   (JObj [(''username'', JStr uname), (''email'', JStr email),
                          (''password'', JStr password), (''confirmPassword'', JStr password)]) = (w1, Inr d)"
    and body_present: "d \<noteq> JNull" "d \<noteq> JUndefined"
    and no_token: "\<not> truthy (get_prop_opt d ''token'')"
  shows "register server stringify w state uname email password =
           (w1,
            authReducer (authReducer state REGISTER_REQUEST)
              (REGISTER_SUCCESS (user_object (js_or (get_prop_opt d ''username'') (JStr uname))
                                             (js_or (get_prop_opt d ''role'') (JStr ''user'')))),
            Inr True)
         \<and> isAuthenticated (fst (snd (register server stringify w state uname email password)))
         \<and> user (fst (snd (register server stringify w state uname email password))) \<noteq> JNull
         \<and> storage w1 = storage w
         \<and> (\<exists>c. trace w1 = trace w @ [NetInfoFetch, StorageGet TOKEN_STORAGE_KEY, HttpDispatch c])"
proof -
  have reg: "register server stringify w state uname email password =
           (w1,
            authReducer (authReducer state REGISTER_REQUEST)
              (REGISTER_SUCCESS (user_object (js_or (get_prop_opt d ''username'') (JStr uname))
                                             (js_or (get_prop_opt d ''role'') (JStr ''user'')))),
            Inr True)"
    using no_token
    by (simp add: register_def Let_def call get_prop_defined [OF body_present])
  obtain c where w1: "w1 = w\<lparr>trace := trace w @ [NetInfoFetch, StorageGet TOKEN_STORAGE_KEY, HttpDispatch c]\<rparr>"
    using apiClient_request_success [OF call] by blast
  show ?thesis
    unfolding reg using w1 by (simp add: user_object_def)
qed

theorem C9_register_without_token_witness:
  "register (answering 200 (JObj [(''username'', JStr ''alice'')])) blank_stringify (online Map.empty)
      initialState ''alice'' ''a@b.c'' ''secret''
     = (\<lparr>storage = Map.empty, isConnected = Some True, platformOS = ''ios'',
         trace = [NetInfoFetch, StorageGet TOKEN_STORAGE_KEY,
                  HttpDispatch \<lparr>http_method = POST, url = REGISTER, params = [],
                     body = JObj [(''username'', JStr ''alice''), (''email'', JStr ''a@b.c''),
                                  (''password'', JStr ''secret''), (''confirmPassword'', JStr ''secret'')],
                     headers = [(''Content-Type'', ''application/json''), (''Accept'', ''application/json''),
                                (''Platform'', ''ios'')]\<rparr>]\<rparr>,
        \<lparr>user = JObj [(''username'', JStr ''alice''), (''role'', JStr ''user'')], isAuthenticated = True,
         isLoading = False, error = JNull\<rparr>,
        Inr True)"
proof -
  have call: "apiClient_request (answering 200 (JObj [(''username'', JStr ''alice'')])) (online Map.empty) POST REGISTER []
       (JObj [(''username'', JStr ''alice''), (''email'', JStr ''a@b.c''),
              (''password'', JStr ''secret''), (''confirmPassword'', JStr ''secret'')])
     = (\<lparr>storage = Map.empty, isConnected = Some True, platformOS = ''ios'',
         trace = [NetInfoFetch, StorageGet TOKEN_STORAGE_KEY,
                  HttpDispatch \<lparr>http_method = POST, url = REGISTER, params = [],
                     body = JObj [(''username'', JStr ''alice''), (''email'', JStr ''a@b.c''),
                                  (''password'', JStr ''secret''), (''confirmPassword'', JStr ''secret'')],
                     headers = [(''Content-Type'', ''application/json''), (''Accept'', ''application/json''),
                                (''Platform'', ''ios'')]\<rparr>]\<rparr>,
        Inr (JObj [(''username'', JStr ''alice'')]))"
    by (simp add: apiClient_request_def request_interceptor_online online_def answering_def
          mk_config_def default_headers_def emit_def Let_def)
  show ?thesis
    using C9_register_without_token [OF call, of blank_stringify initialState]
    by (simp add: js_or_def initialState_def user_object_def)
qed

text \<open>
  C9 as stated fails for the body \<^verbatim>\<open>null\<close>, which contains no token value: reading
  \<^verbatim>\<open>response.data.username\<close> throws, the \<^verbatim>\<open>catch\<close> block dispatches \<^verbatim>\<open>REGISTER_FAILURE\<close>
  and \<^verbatim>\<open>register\<close> throws instead of returning true.
\<close>

theorem C9_null_body_counterexample:
  "snd (apiClient_request (answering 200 JNull) (online Map.empty) POST REGISTER []
          (JObj [(''username'', JStr ''alice''), (''email'', JStr ''a@b.c''),
                 (''password'', JStr ''secret''), (''confirmPassword'', JStr ''secret'')])) = Inr JNull
   \<and> get_prop_opt JNull ''token'' = JUndefined
   \<and> snd (snd (register (answering 200 JNull) blank_stringify (online Map.empty)
                  initialState ''alice'' ''a@b.c'' ''secret'')) = Inl (JsError (JStr ''Registration failed''))
   \<and> isAuthenticated (fst (snd (register (answering 200 JNull) blank_stringify (online Map.empty)
                  initialState ''alice'' ''a@b.c'' ''secret''))) = False"
  by (simp add: register_def apiClient_request_def request_interceptor_online online_def answering_def
        emit_def Let_def auth_catch_def js_or_def)


section \<open>The search URL\<close>

lemma foldl_append_param:
  "foldl (\<lambda>q g. append_param q k (f g)) q0 ids = q0 @ map (\<lambda>g. (k, f g)) ids"
  by (induction ids arbitrary: q0) (simp_all add: append_param_def)

lemma searchMovies_queryParams_split:
  "searchMovies_queryParams ps =
     searchMovies_queryParams (ps\<lparr>genreIds := None\<rparr>)
     @ map (\<lambda>g. (''GenreIds'', String_number g)) (genre_list ps)"
  by (simp add: searchMovies_queryParams_def genre_list_def Let_def foldl_append_param
        split: option.splits)

lemma no_genre_param_without_ids:
  "filter (\<lambda>kv. fst kv = ''GenreIds'') (searchMovies_queryParams (ps\<lparr>genreIds := None\<rparr>)) = []"
  by (simp add: searchMovies_queryParams_def Let_def append_param_def split: option.splits)

lemma filter_genre_entries:
  "filter (\<lambda>kv. fst kv = ''GenreIds'') (map (\<lambda>g. (''GenreIds'', f g)) ids) = map (\<lambda>g. (''GenreIds'', f g)) ids"
  by (induction ids) simp_all

lemma queryParams_not_empty: "searchMovies_queryParams (ps\<lparr>genreIds := None\<rparr>) \<noteq> []"
  by (simp add: searchMovies_queryParams_def Let_def append_param_def split: option.splits)

lemma join_amp_snoc:
  "xs \<noteq> [] \<Longrightarrow> join_amp (xs @ [y]) = join_amp xs @ ''&'' @ y"
  by (induction xs rule: join_amp.induct) simp_all

lemma join_amp_append:
  "xs \<noteq> [] \<Longrightarrow> join_amp (xs @ ys) = join_amp xs @ concat (map (\<lambda>y. ''&'' @ y) ys)"
proof (induction ys rule: rev_induct)
  case Nil
  then show ?case by simp
next
  case (snoc y ys)
  have "join_amp (xs @ ys @ [y]) = join_amp ((xs @ ys) @ [y])" by simp
  also have "\<dots> = join_amp (xs @ ys) @ ''&'' @ y"
    using snoc.prems by (intro join_amp_snoc) simp
  finally show ?case using snoc by simp
qed

text \<open>
  C8. Each genre id of a search becomes its own \<open>GenreIds\<close> parameter, one per id and
  in list order, appended after the other parameters: the query holds exactly these
  \<open>GenreIds\<close> entries, and the URL is the URL of the same search without genres
  followed by \<open>&GenreIds=id\<close> for each id. With an empty or absent list there is no
  \<open>GenreIds\<close> parameter.
\<close>

theorem C8_genre_ids_repeated:
  "filter (\<lambda>kv. fst kv = ''GenreIds'') (searchMovies_queryParams ps)
     = map (\<lambda>g. (''GenreIds'', String_number g)) (genre_list ps)
   \<and> searchMovies_url enc ps
     = searchMovies_url enc (ps\<lparr>genreIds := None\<rparr>)
       @ concat (map (\<lambda>g. ''&'' @ enc ''GenreIds'' @ ''='' @ enc (String_number g)) (genre_list ps))
   \<and> searchMovies server enc w ps = apiClient_request server w GET (searchMovies_url enc ps) [] JUndefined"
proof -
  have entries: "filter (\<lambda>kv. fst kv = ''GenreIds'') (searchMovies_queryParams ps)
     = map (\<lambda>g. (''GenreIds'', String_number g)) (genre_list ps)"
    by (subst searchMovies_queryParams_split)
       (simp only: filter_append no_genre_param_without_ids filter_genre_entries append_Nil)
  have "toString enc (searchMovies_queryParams ps)
     = toString enc (searchMovies_queryParams (ps\<lparr>genreIds := None\<rparr>))
       @ concat (map (\<lambda>g. ''&'' @ enc ''GenreIds'' @ ''='' @ enc (String_number g)) (genre_list ps))"
    unfolding toString_def
    by (subst searchMovies_queryParams_split)
       (simp add: join_amp_append queryParams_not_empty comp_def)
  then show ?thesis
    using entries by (simp add: searchMovies_url_def searchMovies_def)
qed

theorem C8_genre_ids_witness:
  "searchMovies_url id \<lparr>pageNumber = None, pageSize = Some 20, searchTerm = Some ''star'', sortBy = None,
       sortOrder = Some desc, releaseYear = Some 1999, genreIds = Some [28, 12]\<rparr>
     = ''/api/v1/movies/search?SearchTerm=star&PageNumber=1&PageSize=20&SortOrder=desc&ReleaseYear=1999&version=v1&GenreIds=28&GenreIds=12''
   \<and> filter (\<lambda>kv. fst kv = ''GenreIds'') (searchMovies_queryParams
        \<lparr>pageNumber = None, pageSize = Some 20, searchTerm = Some ''star'', sortBy = None,
         sortOrder = Some desc, releaseYear = Some 1999, genreIds = Some [28, 12]\<rparr>)
     = [(''GenreIds'', ''28''), (''GenreIds'', ''12'')]"
proof -
  have d: "String_number 28 = ''28''" "String_number 12 = ''12''" "String_number 1 = ''1''"
    "String_number 20 = ''20''" "String_number 1999 = ''1999''"
    by code_simp+
  have base: "searchMovies_url id \<lparr>pageNumber = None, pageSize = Some 20, searchTerm = Some ''star'', sortBy = None,
       sortOrder = Some desc, releaseYear = Some 1999, genreIds = None\<rparr>
     = ''/api/v1/movies/search?SearchTerm=star&PageNumber=1&PageSize=20&SortOrder=desc&ReleaseYear=1999&version=v1''"
    by (simp add: searchMovies_url_def searchMovies_queryParams_def toString_def Let_def append_param_def
          number_or_def d MOVIES_def API_VERSION_def)
  show ?thesis
    using C8_genre_ids_repeated [of "\<lparr>pageNumber = None, pageSize = Some 20, searchTerm = Some ''star'', sortBy = None,
       sortOrder = Some desc, releaseYear = Some 1999, genreIds = Some [28, 12]\<rparr>" id]
    by (simp add: base genre_list_def d)
qed

section \<open>The accumulated movie list\<close>

lemma allMovies_query_settled:
  "allMovies (query_settled r s) =
     (if (Some r, page s) = data_page_deps s then allMovies s
      else if page s = 1 then items r
      else allMovies s @ items r)"
  by (simp add: query_settled_def run_effects_def Let_def loadingMore_effect_def allMovies_effect_def)


lemma first_page_settled:
  "query_settled p1 home_initial =
     \<lparr>page = 1, allMovies = items p1, isLoadingMore = False, data = Some p1, isFetching = False,
      data_page_deps = (Some p1, 1), fetching_deps = False\<rparr>"
  by (simp add: query_settled_def run_effects_def Let_def loadingMore_effect_def allMovies_effect_def
        home_initial_def)


text \<open>A pull-to-refresh on page 1 empties the list; when the refetch then delivers an
  equal body, the effect has nothing new to run on and the list stays empty.\<close>

lemma refresh_with_equal_body:
  "allMovies (query_settled p1 (handleRefresh (query_settled p1 home_initial))) = []"
  by (simp add: first_page_settled allMovies_query_settled handleRefresh_def)




section \<open>Validation of response bodies\<close>

lemma answered_ok:
  "isConnected w = Some True \<Longrightarrow> snd (apiClient_request (answering 200 d) w m u ps b) = Inr d"
  using apiClient_request_online [of w m u ps b "answering 200 d"]
  by (auto simp: answering_def)

lemma answered_error:
  "isConnected w = Some True \<Longrightarrow> snd (apiClient_request (answering 500 d) w m u ps b) = Inl (AxiosError (Some (500, d)))"
  using apiClient_request_online [of w m u ps b "answering 500 d"]
  by (auto simp: answering_def)

lemma snd_parse_body:
  "snd (parse_body sc r) = (case snd r of Inl e \<Rightarrow> Inl e | Inr d \<Rightarrow> parse sc d)"
  by (cases r) (simp add: parse_body_def split: sum.splits)

lemma snd_discard_body:
  "snd (discard_body r) = (case snd r of Inl e \<Rightarrow> Inl e | Inr d \<Rightarrow> Inr JUndefined)"
  by (cases r) (simp add: discard_body_def split: sum.splits)

text \<open>\<^verbatim>\<open>getAllGenres\<close> reads the names out of the items of the body; it validates
  nothing, and a body without an array of items, or with an item that is \<^verbatim>\<open>null\<close>, makes
  it throw a type error.\<close>

lemma get_prop_error: "get_prop v k = Inl e \<Longrightarrow> e = TypeError"
  by (cases v) simp_all

lemma genre_names_error: "genre_names gs = Inl e \<Longrightarrow> e = TypeError"
proof (induction gs arbitrary: e)
  case Nil
  then show ?case by simp
next
  case (Cons g gs)
  then show ?case
    by (cases g) (auto split: sum.splits)
qed

lemma genre_names_of_named: "genre_names (map (\<lambda>n. JObj [(''name'', n)]) ns) = Inr ns"
  by (induction ns) simp_all

lemma getAllGenres_result:
  assumes "isConnected w = Some True"
  shows "snd (getAllGenres (answering 200 d) w) =
           (case get_prop d ''items'' of
              Inl e \<Rightarrow> Inl e
            | Inr (JArr gs) \<Rightarrow> (case genre_names gs of Inl e \<Rightarrow> Inl e | Inr ns \<Rightarrow> Inr (JArr ns))
            | Inr other \<Rightarrow> Inl TypeError)"
proof -
  obtain w1 where w1: "apiClient_request (answering 200 d) w GET GENRES [(''pageSize'', ''100''), (''version'', ''v1'')] JUndefined = (w1, Inr d)"
    using answered_ok [OF assms, of d GET GENRES "[(''pageSize'', ''100''), (''version'', ''v1'')]" JUndefined]
    by (cases "apiClient_request (answering 200 d) w GET GENRES [(''pageSize'', ''100''), (''version'', ''v1'')] JUndefined") simp
  show ?thesis
    unfolding getAllGenres_def w1
    by (auto split: sum.splits jsval.splits)
qed

lemma getAllGenres_no_validation:
  assumes "isConnected w = Some True"
  shows "snd (getAllGenres (answering 200 d) w) \<noteq> Inl ZodError"
  unfolding getAllGenres_result [OF assms]
  by (auto split: sum.splits jsval.splits dest: genre_names_error get_prop_error)

text \<open>
  C4 (as amended). The people service validates the body of \<^verbatim>\<open>getPopularPeople\<close>,
  \<^verbatim>\<open>getPersonDetails\<close>, \<^verbatim>\<open>searchPeople\<close>, \<^verbatim>\<open>createPerson\<close> and \<^verbatim>\<open>updatePerson\<close>, and the genre
  service that of \<^verbatim>\<open>getPopularGenres\<close>, against a declared schema and returns the parsed
  value; a body that does not match raises a validation error, which is neither the
  transport error of the HTTP library nor the connectivity or session error, and a
  transport error passes through these operations unchanged. The list, get, create and
  search operations of the movie, actor and director services, \<^verbatim>\<open>getGenres\<close>, \<^verbatim>\<open>getGenre\<close>,
  \<^verbatim>\<open>createGenre\<close> and \<^verbatim>\<open>getFilmography\<close> return the body as received, whatever it is.
  \<^verbatim>\<open>getAllGenres\<close> returns the names of the items of the body, or throws a type error
  where the body has no array of items or an item is \<^verbatim>\<open>null\<close> or \<^verbatim>\<open>undefined\<close>; it never
  raises a validation error. The update and delete operations of the movie, actor,
  director and genre services and \<^verbatim>\<open>deletePerson\<close> return nothing.
\<close>

theorem C4_validated_operations:
  "isConnected w = Some True \<Longrightarrow>
   snd (getPopularPeople (answering 200 d) w) = parse (ZArray PopularActorSchema) d
   \<and> snd (getPersonDetails (answering 200 d) w i) = parse PersonSchema d
   \<and> snd (searchPeople (answering 200 d) w sp) = parse PaginatedPeopleSchema d
   \<and> snd (createPerson (answering 200 d) w x) = parse PersonSchema d
   \<and> snd (updatePerson (answering 200 d) w i x) = parse PersonSchema d
   \<and> snd (getPopularGenres (answering 200 d) w) = parse (ZArray PopularGenreSchema) d
   \<and> parse sc d = (case safeParse sc d of None \<Rightarrow> Inl ZodError | Some v \<Rightarrow> Inr v)
   \<and> ZodError \<noteq> AxiosError r \<and> ZodError \<noteq> JsError msg
   \<and> snd (getPersonDetails (answering 500 d) w i) = Inl (AxiosError (Some (500, d)))
   \<and> snd (getPopularGenres (answering 500 d) w) = Inl (AxiosError (Some (500, d)))
   \<and> snd (getMovies (answering 200 d) w pn psz) = Inr d
   \<and> snd (getMovie (answering 200 d) w n) = Inr d
   \<and> snd (createMovie (answering 200 d) w x) = Inr d
   \<and> snd (getMoviesByActor (answering 200 d) w n pn psz) = Inr d
   \<and> snd (getMoviesByGenre (answering 200 d) w n pn psz) = Inr d
   \<and> snd (searchMovies (answering 200 d) enc w mp) = Inr d
   \<and> snd (getActors (answering 200 d) w pn psz) = Inr d
   \<and> snd (getActor (answering 200 d) w n) = Inr d
   \<and> snd (createActor (answering 200 d) w x) = Inr d
   \<and> snd (searchActors (answering 200 d) w q pn psz) = Inr d
   \<and> snd (getActorMovies (answering 200 d) w n pn psz) = Inr d
   \<and> snd (getDirectors (answering 200 d) w pn psz) = Inr d
   \<and> snd (getDirector (answering 200 d) w n) = Inr d
   \<and> snd (createDirector (answering 200 d) w x) = Inr d
   \<and> snd (searchDirectors (answering 200 d) w q pn psz) = Inr d
   \<and> snd (getGenres (answering 200 d) w pn psz) = Inr d
   \<and> snd (getGenre (answering 200 d) w i) = Inr d
   \<and> snd (createGenre (answering 200 d) w x) = Inr d
   \<and> snd (getFilmography (answering 200 d) w i) = Inr d
   \<and> snd (getAllGenres (answering 200 d) w) =
        (case get_prop d ''items'' of
           Inl e \<Rightarrow> Inl e
         | Inr (JArr gs) \<Rightarrow> (case genre_names gs of Inl e \<Rightarrow> Inl e | Inr ns \<Rightarrow> Inr (JArr ns))
         | Inr other \<Rightarrow> Inl TypeError)
   \<and> snd (getAllGenres (answering 200 (JObj [(''items'', JArr (map (\<lambda>n. JObj [(''name'', n)]) ns))])) w)
        = Inr (JArr ns)
   \<and> snd (getAllGenres (answering 200 d) w) \<noteq> Inl ZodError
   \<and> snd (updateMovie (answering 200 d) w n x) = Inr JUndefined
   \<and> snd (deleteMovie (answering 200 d) w n) = Inr JUndefined
   \<and> snd (updateActor (answering 200 d) w n x) = Inr JUndefined
   \<and> snd (deleteActor (answering 200 d) w n) = Inr JUndefined
   \<and> snd (updateDirector (answering 200 d) w n x) = Inr JUndefined
   \<and> snd (deleteDirector (answering 200 d) w n) = Inr JUndefined
   \<and> snd (updateGenre (answering 200 d) w i x) = Inr JUndefined
   \<and> snd (deleteGenre (answering 200 d) w i) = Inr JUndefined
   \<and> snd (deletePerson (answering 200 d) w i) = Inr JUndefined"
proof -
  assume on: "isConnected w = Some True"
  note ok = answered_ok [OF on] answered_error [OF on] snd_parse_body snd_discard_body
  have people: "snd (getPopularPeople (answering 200 d) w) = parse (ZArray PopularActorSchema) d"
    "snd (getPersonDetails (answering 200 d) w i) = parse PersonSchema d"
    "snd (searchPeople (answering 200 d) w sp) = parse PaginatedPeopleSchema d"
    "snd (createPerson (answering 200 d) w x) = parse PersonSchema d"
    "snd (updatePerson (answering 200 d) w i x) = parse PersonSchema d"
    "snd (getPopularGenres (answering 200 d) w) = parse (ZArray PopularGenreSchema) d"
    "snd (getPersonDetails (answering 500 d) w i) = Inl (AxiosError (Some (500, d)))"
    "snd (getPopularGenres (answering 500 d) w) = Inl (AxiosError (Some (500, d)))"
    by (simp_all add: getPopularPeople_def getPersonDetails_def searchPeople_def createPerson_def
          updatePerson_def getPopularGenres_def ok)
  have movies: "snd (getMovies (answering 200 d) w pn psz) = Inr d"
    "snd (getMovie (answering 200 d) w n) = Inr d"
    "snd (createMovie (answering 200 d) w x) = Inr d"
    "snd (getMoviesByActor (answering 200 d) w n pn psz) = Inr d"
    "snd (getMoviesByGenre (answering 200 d) w n pn psz) = Inr d"
    "snd (searchMovies (answering 200 d) enc w mp) = Inr d"
    by (simp_all add: getMovies_def getMovie_def createMovie_def getMoviesByActor_def
          getMoviesByGenre_def searchMovies_def ok)
  have actors: "snd (getActors (answering 200 d) w pn psz) = Inr d"
    "snd (getActor (answering 200 d) w n) = Inr d"
    "snd (createActor (answering 200 d) w x) = Inr d"
    "snd (searchActors (answering 200 d) w q pn psz) = Inr d"
    "snd (getActorMovies (answering 200 d) w n pn psz) = Inr d"
    by (simp_all add: getActors_def getActor_def createActor_def searchActors_def getActorMovies_def ok)
  have directors: "snd (getDirectors (answering 200 d) w pn psz) = Inr d"
    "snd (getDirector (answering 200 d) w n) = Inr d"
    "snd (createDirector (answering 200 d) w x) = Inr d"
    "snd (searchDirectors (answering 200 d) w q pn psz) = Inr d"
    by (simp_all add: getDirectors_def getDirector_def createDirector_def searchDirectors_def ok)
  have genres: "snd (getGenres (answering 200 d) w pn psz) = Inr d"
    "snd (getGenre (answering 200 d) w i) = Inr d"
    "snd (createGenre (answering 200 d) w x) = Inr d"
    "snd (getFilmography (answering 200 d) w i) = Inr d"
    by (simp_all add: getGenres_def getGenre_def createGenre_def getFilmography_def ok)
  have void: "snd (updateMovie (answering 200 d) w n x) = Inr JUndefined"
    "snd (deleteMovie (answering 200 d) w n) = Inr JUndefined"
    "snd (updateActor (answering 200 d) w n x) = Inr JUndefined"
    "snd (deleteActor (answering 200 d) w n) = Inr JUndefined"
    "snd (updateDirector (answering 200 d) w n x) = Inr JUndefined"
    "snd (deleteDirector (answering 200 d) w n) = Inr JUndefined"
    "snd (updateGenre (answering 200 d) w i x) = Inr JUndefined"
    "snd (deleteGenre (answering 200 d) w i) = Inr JUndefined"
    "snd (deletePerson (answering 200 d) w i) = Inr JUndefined"
    by (simp_all add: updateMovie_def deleteMovie_def updateActor_def deleteActor_def updateDirector_def
          deleteDirector_def updateGenre_def deleteGenre_def deletePerson_def ok)
  have names: "snd (getAllGenres (answering 200 (JObj [(''items'', JArr (map (\<lambda>n. JObj [(''name'', n)]) ns))])) w)
        = Inr (JArr ns)"
    by (simp add: getAllGenres_result [OF on] genre_names_of_named)
  show ?thesis
    by (simp only: people movies actors directors genres void names parse_def [symmetric]
          getAllGenres_result [OF on, symmetric] getAllGenres_no_validation [OF on]
          client_error.distinct simp_thms not_False_eq_True)
qed

theorem C4_validated_operations_witness:
  "isConnected (online Map.empty) = Some True
   \<and> snd (getPersonDetails (answering 200 (JObj [(''id'', JNum 1)])) (online Map.empty) ''1'') = Inl ZodError
   \<and> snd (getPersonDetails (answering 200 (JObj [(''id'', JNum 1), (''name'', JStr ''Ann'')])) (online Map.empty) ''1'')
       = Inr (JObj [(''id'', JNum 1), (''name'', JStr ''Ann''), (''isDirector'', JBool False),
                    (''isActor'', JBool False), (''movies'', JArr [])])
   \<and> snd (getMovies (answering 200 (JObj [(''id'', JNum 1)])) (online Map.empty) None None)
       = Inr (JObj [(''id'', JNum 1)])"
proof -
  have on: "isConnected (online Map.empty) = Some True"
    by (simp add: online_def)
  have bad: "parse PersonSchema (JObj [(''id'', JNum 1)]) = Inl ZodError"
    by (simp add: parse_def PersonSchema_def field_def)
  have good: "parse PersonSchema (JObj [(''id'', JNum 1), (''name'', JStr ''Ann'')])
       = Inr (JObj [(''id'', JNum 1), (''name'', JStr ''Ann''), (''isDirector'', JBool False),
                    (''isActor'', JBool False), (''movies'', JArr [])])"
    by (simp add: parse_def PersonSchema_def field_def)
  show ?thesis
    using C4_validated_operations [OF on, of "JObj [(''id'', JNum 1)]" "''1''"]
      C4_validated_operations [OF on, of "JObj [(''id'', JNum 1), (''name'', JStr ''Ann'')]" "''1''"]
    by (simp only: on bad good simp_thms)
qed

text \<open>
  C4 as stated fails for the movie list: the body \<^verbatim>\<open>null\<close> matches neither the
  pagination schema nor the movie response schema, and \<^verbatim>\<open>getMovies\<close> returns it to the
  caller instead of raising a validation error.
\<close>

theorem C4_getMovies_counterexample:
  "safeParse MovieResponseSchema JNull = None
   \<and> safeParse PaginationSchema JNull = None
   \<and> snd (getMovies (answering 200 JNull) (online Map.empty) None None) = Inr JNull"
proof -
  have "isConnected (online Map.empty) = Some True"
    by (simp add: online_def)
  then have "snd (getMovies (answering 200 JNull) (online Map.empty) None None) = Inr JNull"
    by (simp add: getMovies_def answered_ok)
  then show ?thesis
    by (simp add: MovieResponseSchema_def PaginationSchema_def)
qed

section \<open>Paginated responses\<close>

lemma parse_elems_ZAny: "parse_elems ZAny xs = Some xs"
  by (induction xs) simp_all

lemma safeParse_paginated:
  "safeParse PaginationSchema (paginated its tc pn psz tp hp hn) = Some (paginated its tc pn psz tp hp hn)"
  by (simp add: PaginationSchema_def paginated_def field_def parse_elems_ZAny)

text \<open>
  C5 (as amended). The pagination schema accepts every object whose items are an array,
  whose totalCount, pageNumber, pageSize and totalPages are numbers and whose
  hasPrevious and hasNext are booleans, whatever these values are, and the list
  operations return the body as received: the client neither computes nor checks
  \<open>totalPages = ceil(totalCount / pageSize)\<close> and \<open>hasNext = (pageNumber < totalPages)\<close>.
\<close>

theorem C5_pagination_unchecked:
  "safeParse PaginationSchema (paginated its tc pn psz tp hp hn) = Some (paginated its tc pn psz tp hp hn)
   \<and> (isConnected w = Some True \<longrightarrow>
        snd (getMovies (answering 200 d) w a b) = Inr d
        \<and> snd (getActors (answering 200 d) w a b) = Inr d
        \<and> snd (getDirectors (answering 200 d) w a b) = Inr d
        \<and> snd (getGenres (answering 200 d) w a b) = Inr d)"
  by (simp add: safeParse_paginated getMovies_def getActors_def getDirectors_def getGenres_def answered_ok)

theorem C5_pagination_unchecked_witness:
  "isConnected (online Map.empty) = Some True
   \<and> safeParse PaginationSchema (paginated [] 25 1 10 3 False True) = Some (paginated [] 25 1 10 3 False True)
   \<and> spec_pagination_invariant (paginated [] 25 1 10 3 False True)
   \<and> snd (getMovies (answering 200 (paginated [] 25 1 10 3 False True)) (online Map.empty) None None)
       = Inr (paginated [] 25 1 10 3 False True)"
proof -
  have on: "isConnected (online Map.empty) = Some True"
    by (simp add: online_def)
  have inv: "spec_pagination_invariant (paginated [] 25 1 10 3 False True)"
    by (simp add: spec_pagination_invariant_def paginated_def)
  show ?thesis
    using C5_pagination_unchecked [of "[]" 25 1 10 3 False True "online Map.empty"
        "paginated [] 25 1 10 3 False True" None None] on inv
    by simp
qed

text \<open>
  C5 as stated fails: a body with no items, a total count of 0 and 7 total pages, that
  claims a next page, passes the pagination schema and the movie response schema and is
  returned by the movie list operation, yet \<open>7\<close> is not \<open>ceil(0 / 10)\<close>.
\<close>

theorem C5_invariant_counterexample:
  "safeParse PaginationSchema (paginated [] 0 1 10 7 False True) = Some (paginated [] 0 1 10 7 False True)
   \<and> safeParse MovieResponseSchema (paginated [] 0 1 10 7 False True) = Some (paginated [] 0 1 10 7 False True)
   \<and> snd (getMovies (answering 200 (paginated [] 0 1 10 7 False True)) (online Map.empty) None None)
       = Inr (paginated [] 0 1 10 7 False True)
   \<and> \<not> spec_pagination_invariant (paginated [] 0 1 10 7 False True)"
proof -
  have on: "isConnected (online Map.empty) = Some True"
    by (simp add: online_def)
  have movie: "safeParse MovieResponseSchema (paginated [] 0 1 10 7 False True) = Some (paginated [] 0 1 10 7 False True)"
    by (simp add: MovieResponseSchema_def PaginationSchema_def MovieSchema_def paginated_def field_def)
  have ret: "snd (getMovies (answering 200 (paginated [] 0 1 10 7 False True)) (online Map.empty) None None)
       = Inr (paginated [] 0 1 10 7 False True)"
    using on by (simp add: getMovies_def answered_ok)
  have inv: "\<not> spec_pagination_invariant (paginated [] 0 1 10 7 False True)"
    by (simp add: spec_pagination_invariant_def paginated_def)
  show ?thesis
    using movie ret inv by (simp add: safeParse_paginated)
qed


section \<open>The session invariant\<close>

text \<open>The reducer keeps the invariant as long as no success action carries \<^verbatim>\<open>null\<close>.\<close>

lemma authReducer_invariant:
  "success_payload a \<noteq> Some JNull \<Longrightarrow>
   isAuthenticated s = (user s \<noteq> JNull) \<Longrightarrow>
   isAuthenticated (authReducer s a) = (user (authReducer s a) \<noteq> JNull)"
  by (cases a) simp_all

lemma foldl_authReducer_invariant:
  "\<forall>a \<in> set acts. success_payload a \<noteq> Some JNull \<Longrightarrow>
   isAuthenticated s = (user s \<noteq> JNull) \<Longrightarrow>
   isAuthenticated (foldl authReducer s acts) = (user (foldl authReducer s acts) \<noteq> JNull)"
proof (induction acts arbitrary: s)
  case Nil
  then show ?case by simp
next
  case (Cons a acts)
  have "isAuthenticated (authReducer s a) = (user (authReducer s a) \<noteq> JNull)"
    using Cons.prems by (intro authReducer_invariant) simp_all
  then show ?case using Cons.IH Cons.prems(1) by simp
qed

lemma invariant_without_null_payload:
  "\<forall>a \<in> set acts. success_payload a \<noteq> Some JNull \<Longrightarrow>
   isAuthenticated (dispatch_all initialState acts) = (user (dispatch_all initialState acts) \<noteq> JNull)"
  unfolding dispatch_all_def
  by (rule foldl_authReducer_invariant) (simp_all add: initialState_def)

text \<open>The users \<^verbatim>\<open>login\<close> and \<^verbatim>\<open>register\<close> dispatch are object literals, never \<^verbatim>\<open>null\<close>.\<close>

lemma user_object_not_null: "user_object un rl \<noteq> JNull"
  by (simp add: user_object_def)


end
